theory Spec2Isabelle
  imports Complex_Main "HOL-Library.Sublist" "HOL-Library.AList"
begin

section \<open>Python values and the operations the handlers apply to them\<close>

text \<open>
  Request bodies and grid responses are parsed JSON: Python values built from
  \<open>None\<close>, booleans, numbers, strings, lists and dicts. A dict is kept as an
  association list in insertion order; the keys of a parsed JSON object are strings
  (\<open>PStr\<close>), the dicts the handlers build themselves may be keyed by any hashable value.
  Numbers are never computed with, only carried. Strings are byte strings, so a digit
  is one of the ten ASCII digits.
\<close>

datatype pyval =
    PNone
  | PBool bool
  | PNum rat
  | PStr string
  | PList "pyval list"
  | PDict "(pyval \<times> pyval) list"

text \<open>The exceptions a handler can leave uncaught (the server answers 500).\<close>

datatype exc =
    KeyError
  | IndexError
  | TypeError
  | AttributeError
  | ValueError
  | LookupError
  | ExternalException

text \<open>\<open>v[k]\<close> with a string key.\<close>

fun py_getitem :: "pyval \<Rightarrow> string \<Rightarrow> exc + pyval" where
  "py_getitem (PDict kvs) k =
     (case map_of kvs (PStr k) of None \<Rightarrow> Inl KeyError | Some v \<Rightarrow> Inr v)"
| "py_getitem v k = Inl TypeError"

text \<open>\<open>v.get(k, default)\<close>: only a dict has the method.\<close>

fun py_get :: "pyval \<Rightarrow> string \<Rightarrow> pyval \<Rightarrow> exc + pyval" where
  "py_get (PDict kvs) k d =
     (case map_of kvs (PStr k) of None \<Rightarrow> Inr d | Some v \<Rightarrow> Inr v)"
| "py_get v k d = Inl AttributeError"

text \<open>\<open>v[i]\<close> with a non-negative integer literal.\<close>

fun py_index :: "pyval \<Rightarrow> nat \<Rightarrow> exc + pyval" where
  "py_index (PList xs) i = (if i < length xs then Inr (xs ! i) else Inl IndexError)"
| "py_index (PStr s) i = (if i < length s then Inr (PStr [s ! i]) else Inl IndexError)"
| "py_index (PDict kvs) i =
     (case map_of kvs (PNum (of_nat i)) of None \<Rightarrow> Inl KeyError | Some v \<Rightarrow> Inr v)"
| "py_index v i = Inl TypeError"

text \<open>\<open>for x in v\<close>: the sequence of values the loop runs over.\<close>

fun py_iter :: "pyval \<Rightarrow> exc + pyval list" where
  "py_iter (PList xs) = Inr xs"
| "py_iter (PDict kvs) = Inr (map fst kvs)"
| "py_iter (PStr s) = Inr (map (\<lambda>c. PStr [c]) s)"
| "py_iter v = Inl TypeError"

text \<open>Truth value of a Python value, as \<open>if v:\<close> tests it.\<close>

fun py_truthy :: "pyval \<Rightarrow> bool" where
  "py_truthy PNone = False"
| "py_truthy (PBool b) = b"
| "py_truthy (PNum n) = (n \<noteq> 0)"
| "py_truthy (PStr s) = (s \<noteq> [])"
| "py_truthy (PList xs) = (xs \<noteq> [])"
| "py_truthy (PDict kvs) = (kvs \<noteq> [])"

text \<open>
  A value used as a dict key: lists and dicts are unhashable, and \<open>True\<close>/\<open>False\<close>
  are the same keys as \<open>1\<close>/\<open>0\<close>.
\<close>

fun py_hash_key :: "pyval \<Rightarrow> exc + pyval" where
  "py_hash_key (PList xs) = Inl TypeError"
| "py_hash_key (PDict kvs) = Inl TypeError"
| "py_hash_key (PBool b) = Inr (PNum (if b then 1 else 0))"
| "py_hash_key v = Inr v"

text \<open>\<open>d[k] = v\<close> on a dict held as an association list.\<close>

definition dict_set :: "(pyval \<times> pyval) list \<Rightarrow> pyval \<Rightarrow> pyval \<Rightarrow> exc + (pyval \<times> pyval) list" where
  "dict_set d k v = (case py_hash_key k of Inl e \<Rightarrow> Inl e | Inr k' \<Rightarrow> Inr (AList.update k' v d))"

text \<open>\<open>[u for u in us if u[k] == v]\<close>: the first element without the key raises.\<close>

fun filter_by_field :: "string \<Rightarrow> pyval \<Rightarrow> pyval list \<Rightarrow> exc + pyval list" where
  "filter_by_field k v [] = Inr []"
| "filter_by_field k v (u # us) =
     (case py_getitem u k of
        Inl e \<Rightarrow> Inl e
      | Inr x \<Rightarrow>
          (case filter_by_field k v us of
             Inl e \<Rightarrow> Inl e
           | Inr r \<Rightarrow> Inr (if x = v then u # r else r)))"

subsection \<open>Strings\<close>

text \<open>\<open>sub in s\<close> on strings.\<close>

primrec substr_in :: "string \<Rightarrow> string \<Rightarrow> bool" where
  "substr_in sub [] = (sub = [])"
| "substr_in sub (c # cs) = (prefix sub (c # cs) \<or> substr_in sub cs)"

text \<open>\<open>posixpath.join(a, *p)\<close>.\<close>

definition join_step :: "string \<Rightarrow> string \<Rightarrow> string" where
  "join_step path b =
     (if prefix ''/'' b then b
      else if path = [] \<or> suffix ''/'' path then path @ b
      else path @ ''/'' @ b)"

definition os_path_join :: "string \<Rightarrow> string list \<Rightarrow> string" where
  "os_path_join a p = foldl join_step a p"

text \<open>\<open>s.replace(old, new)\<close>.\<close>

function py_replace :: "string \<Rightarrow> string \<Rightarrow> string \<Rightarrow> string" where
  "py_replace old new s =
     (if old = [] then new @ concat (map (\<lambda>c. c # new) s)
      else if s = [] then []
      else if prefix old s then new @ py_replace old new (drop (length old) s)
      else hd s # py_replace old new (tl s))"
  by pat_completeness auto
termination
  by (relation "measure (\<lambda>(old, new, s). length s)") auto

declare py_replace.simps [simp del]

text \<open>\<open>s.lower()\<close> on ASCII letters.\<close>

definition lower_char :: "char \<Rightarrow> char" where
  "lower_char c =
     (if 65 \<le> (of_char c :: nat) \<and> (of_char c :: nat) \<le> 90
      then char_of ((of_char c :: nat) + 32) else c)"

definition string_to_bool :: "string \<Rightarrow> bool" where
  "string_to_bool s = (map lower_char s \<in> set [''true'', ''t'', ''y'', ''1'', ''yes''])"

text \<open>\<open>'%d' % n\<close> for a length.\<close>

definition digit_char :: "nat \<Rightarrow> char" where
  "digit_char d = ''0123456789'' ! d"

fun str_of_nat :: "nat \<Rightarrow> string" where
  "str_of_nat n =
     (if n < 10 then [digit_char n]
      else str_of_nat (n div 10) @ [digit_char (n mod 10)])"

declare str_of_nat.simps [simp del]

subsection \<open>The slippy-cell pattern\<close>

text \<open>
  \<open>re.match(r'\d+/\d+/\d+', s)\<close> matches at the start of \<open>s\<close> and says nothing about
  what follows the match. \<open>\d+\<close> is greedy, and giving digits back never helps, since
  the next pattern character is a slash: so the match is decided by reading the
  longest run of digits each time.
\<close>

definition is_digit :: "char \<Rightarrow> bool" where
  "is_digit c = (c \<in> set ''0123456789'')"

definition match_digits :: "string \<Rightarrow> string option" where
  "match_digits s = (if takeWhile is_digit s = [] then None else Some (dropWhile is_digit s))"

definition match_slash :: "string \<Rightarrow> string option" where
  "match_slash s = (case s of [] \<Rightarrow> None | c # r \<Rightarrow> if c = CHR ''/'' then Some r else None)"

definition match_two_fields :: "string \<Rightarrow> string option" where
  "match_two_fields s =
     (case match_digits s of
        None \<Rightarrow> None
      | Some r1 \<Rightarrow>
          (case match_slash r1 of
             None \<Rightarrow> None
           | Some r2 \<Rightarrow>
               (case match_digits r2 of
                  None \<Rightarrow> None
                | Some r3 \<Rightarrow> match_slash r3)))"

definition re_match_slippy :: "string \<Rightarrow> bool" where
  "re_match_slippy s =
     (case match_two_fields s of None \<Rightarrow> False | Some r4 \<Rightarrow> match_digits r4 \<noteq> None)"

text \<open>The whole string has the form integer/integer/integer.\<close>

definition slippy_exact :: "string \<Rightarrow> bool" where
  "slippy_exact s =
     (case match_two_fields s of
        None \<Rightarrow> False
      | Some r4 \<Rightarrow> match_digits r4 = Some [])"

section \<open>Process state, requests and the outside world\<close>

text \<open>
  One entry of the notification log: the dict \<open>_log_request_body\<close> builds. The key
  \<open>action\<close> is present only when the caller passed a true value.
\<close>

record entry =
  received :: string
  source :: string
  content :: pyval
  uss :: pyval
  action :: "pyval option"

type_synonym timestamp = string

text \<open>The response object of the HTTP client: \<open>resp_json\<close> is \<open>None\<close> when \<open>.json()\<close> raises.\<close>

record http_response =
  status_code :: nat
  resp_content :: string
  resp_json :: "pyval option"

text \<open>
  What a call to the grid client or to a peer gives back: a value, a
  \<open>requests.HTTPError\<close> (with \<open>e.response.status_code\<close>, \<open>e.response.content\<close> and
  \<open>str(e)\<close>), or any other exception.
\<close>

datatype 'a reply = Ok 'a | HTTPError nat string string | OtherException

text \<open>The external calls a handler issues, in the order it issues them.\<close>

datatype call =
    Upsert_operator "pyval list" timestamp timestamp
  | Insert_observer string timestamp timestamp
  | Remove_operator_by_cell string
  | Upsert_uvr pyval
  | Remove_uvr pyval
  | Get_operators_by_area "(pyval \<times> pyval) list"
  | Get_header string
  | Requests_put string pyval pyval

text \<open>
  \<open>jwt.decode\<close>: the claims, or the exception it raises. \<open>DecodeError\<close> stands for
  that class with its subclasses, \<open>InvalidTokenError\<close> for any other exception.
\<close>

datatype jwt_result = Claims pyval | ExpiredSignatureError | DecodeError | InvalidTokenError

text \<open>
  The module's globals that requests change, and the trace \<open>calls\<close> of external calls
  issued so far. Python dicts are association lists in insertion order.
\<close>

record state =
  operations :: "(pyval \<times> pyval) list"
  uvrs :: "(pyval \<times> pyval) list"
  notification_logs :: "(string \<times> entry list) list"
  always_listen :: "string list"
  calls :: "call list"

text \<open>
  The globals fixed at initialisation, the clock, and the collaborators: the grid
  client, the HTTP client and the token library. Each collaborator answers from the
  calls made before and the arguments of this one.
\<close>

record env =
  control_authorization :: "string option"
  public_key :: string
  min_listen_time :: timestamp
  max_listen_time :: timestamp
  uss_baseurl :: string
  uvr_scope :: string
  now_isoformat :: string
  jwt_decode :: "string \<Rightarrow> string \<Rightarrow> jwt_result"
  upsert_operator :: "call list \<Rightarrow> pyval list \<Rightarrow> timestamp \<Rightarrow> timestamp \<Rightarrow> unit reply"
  insert_observer :: "call list \<Rightarrow> string \<Rightarrow> timestamp \<Rightarrow> timestamp \<Rightarrow> unit reply"
  remove_operator_by_cell :: "call list \<Rightarrow> string \<Rightarrow> http_response reply"
  upsert_uvr :: "call list \<Rightarrow> pyval \<Rightarrow> pyval reply"
  remove_uvr :: "call list \<Rightarrow> pyval \<Rightarrow> unit reply"
  get_operators_by_area :: "call list \<Rightarrow> (pyval \<times> pyval) list \<Rightarrow> (pyval \<times> pyval \<times> pyval) reply"
  get_header :: "call list \<Rightarrow> string \<Rightarrow> pyval reply"
  requests_put :: "call list \<Rightarrow> string \<Rightarrow> pyval \<Rightarrow> pyval \<Rightarrow> http_response reply"
  abort_known :: "nat \<Rightarrow> bool"

record request =
  rmethod :: string
  headers :: "string \<rightharpoonup> string"
  rjson :: pyval
  args :: "string \<rightharpoonup> string"

text \<open>
  How a handler ends: it returns a body and a status, it calls \<open>flask.abort\<close> with a
  status and an optional description, or an exception escapes it.
\<close>

datatype body = Text string | Jsonify pyval

datatype outcome = Returned body nat | Aborted nat "string option" | Raised exc

text \<open>
  \<open>flask.abort(code, description)\<close> with a status code that is not a literal of the
  source. The framework raises the HTTP exception it keeps for the code; for a code it
  keeps none for (\<open>abort_known\<close> is its table) it raises \<open>LookupError\<close> instead, and
  the server answers 500. The codes the source writes out itself (400, 401, 403, 404,
  405 and 500) are in that table in every release, so those calls are \<open>Aborted\<close>
  directly.
\<close>

definition flask_abort :: "env \<Rightarrow> nat \<Rightarrow> string option \<Rightarrow> outcome" where
  "flask_abort env code description =
     (if abort_known env code then Aborted code description else Raised LookupError)"

text \<open>\<open>_error(status_code, content)\<close> returns the pair; logging is not modelled.\<close>

definition error_response :: "nat \<Rightarrow> string \<Rightarrow> outcome" where
  "error_response code msg = Returned (Text msg) code"

section \<open>The access gate\<close>

text \<open>\<open>_validate_control\<close>: \<open>None\<close> when the request may proceed.\<close>

definition validate_control :: "env \<Rightarrow> request \<Rightarrow> outcome option" where
  "validate_control env req =
     (case headers req ''Authorization'' of
        None \<Rightarrow> Some (Aborted 401 (Some ''Authorization header was not included in request''))
      | Some h \<Rightarrow>
          if Some h \<noteq> control_authorization env
          then Some (Aborted 403 (Some ''Not authorized to access this control endpoint''))
          else None)"

fun map_e :: "('a \<Rightarrow> exc + 'b) \<Rightarrow> 'a list \<Rightarrow> exc + 'b list" where
  "map_e f [] = Inr []"
| "map_e f (x # xs) =
     (case f x of
        Inl e \<Rightarrow> Inl e
      | Inr y \<Rightarrow> (case map_e f xs of Inl e \<Rightarrow> Inl e | Inr ys \<Rightarrow> Inr (y # ys)))"

definition access_token :: "request \<Rightarrow> string option" where
  "access_token req =
     (case headers req ''Authorization'' of
        Some h \<Rightarrow> Some (py_replace ''Bearer '' [] h)
      | None \<Rightarrow> headers req ''access_token'')"

text \<open>\<open>_validate_access_token(allowed_scopes=None)\<close>: \<open>None\<close> when the request may proceed.\<close>

definition validate_access_token :: "env \<Rightarrow> request \<Rightarrow> string list option \<Rightarrow> outcome option" where
  "validate_access_token env req allowed_scopes =
     (case access_token req of
        None \<Rightarrow> Some (Aborted 401 (Some ''Access token was not included in request''))
      | Some token \<Rightarrow>
          (case jwt_decode env token (public_key env) of
             ExpiredSignatureError \<Rightarrow>
               Some (Aborted 401 (Some ''Access token is invalid: token has expired.''))
           | DecodeError \<Rightarrow>
               Some (Aborted 400 (Some ''Access token is invalid: token cannot be decoded.''))
           | InvalidTokenError \<Rightarrow> Some (Raised ExternalException)
           | Claims claims \<Rightarrow>
               (case allowed_scopes of
                  None \<Rightarrow> None
                | Some scopes \<Rightarrow>
                    (case py_getitem claims ''scope'' of
                       Inl e \<Rightarrow> Some (Raised e)
                     | Inr sc \<Rightarrow>
                         (case py_iter sc of
                            Inl e \<Rightarrow> Some (Raised e)
                          | Inr xs \<Rightarrow>
                              (case map_e py_hash_key xs of
                                 Inl e \<Rightarrow> Some (Raised e)
                               | Inr ks \<Rightarrow>
                                   if list_ex (\<lambda>k. k \<in> set (map PStr scopes)) ks then None
                                   else Some (Aborted 403 (Some
                                     ''Scopes included in access token do not grant access to this resource''))))))))"

section \<open>The notification log\<close>

text \<open>
  \<open>_log_request_body(key, source, action=None)\<close>. The entry's \<open>uss\<close> is
  \<open>flask.request.json.get('uss_name', '???')\<close>; a body that is not a dict has no
  \<open>get\<close>, and then nothing is logged.
\<close>

definition log_request_body :: "env \<Rightarrow> request \<Rightarrow> string \<Rightarrow> string \<Rightarrow> pyval \<Rightarrow> state \<Rightarrow> (exc + entry) \<times> state" where
  "log_request_body env req key src act s =
     (case py_get (rjson req) ''uss_name'' (PStr ''???'') of
        Inl e \<Rightarrow> (Inl e, s)
      | Inr u \<Rightarrow>
          (let e = \<lparr>received = now_isoformat env, source = src, content = rjson req, uss = u,
                     action = (if py_truthy act then Some act else None)\<rparr>;
               history = (case map_of (notification_logs s) key of None \<Rightarrow> [] | Some h \<Rightarrow> h)
           in (Inr e, s\<lparr>notification_logs := AList.update key (history @ [e]) (notification_logs s)\<rparr>)))"

text \<open>An entry as the dict that \<open>flask.jsonify\<close> receives, with or without its content.\<close>

definition entry_dict :: "bool \<Rightarrow> entry \<Rightarrow> pyval" where
  "entry_dict with_content e =
     PDict ([(PStr ''received'', PStr (received e)), (PStr ''source'', PStr (source e))]
            @ (if with_content then [(PStr ''content'', content e)] else [])
            @ [(PStr ''uss'', uss e)]
            @ (case action e of None \<Rightarrow> [] | Some a \<Rightarrow> [(PStr ''action'', a)]))"

section \<open>The operation registry and its grid sync\<close>

text \<open>
  \<open>_update_operations\<close>: the operator entry is replaced by the current operations, then
  an observer is inserted for each always-listen cell. An \<open>HTTPError\<close> of the grid
  becomes \<open>flask.abort(e.response.status_code, msg)\<close>. The parameter \<open>new_gufi\<close> of the
  source is never read and is left out.
\<close>

fun insert_observers :: "env \<Rightarrow> string list \<Rightarrow> state \<Rightarrow> outcome option \<times> state" where
  "insert_observers env [] s = (None, s)"
| "insert_observers env (slippy_cell # cells) s =
     (let c = Insert_observer slippy_cell (min_listen_time env) (max_listen_time env);
          s1 = s\<lparr>calls := calls s @ [c]\<rparr>
      in case insert_observer env (calls s) slippy_cell (min_listen_time env) (max_listen_time env) of
           Ok u \<Rightarrow> insert_observers env cells s1
         | HTTPError code cont msg \<Rightarrow>
             (Some (flask_abort env code (Some (''Error inserting observer Operator into cell ''
                                                 @ slippy_cell @ '': '' @ cont))), s1)
         | OtherException \<Rightarrow> (Some (Raised ExternalException), s1))"

definition update_operations :: "env \<Rightarrow> state \<Rightarrow> outcome option \<times> state" where
  "update_operations env s =
     (let c = Upsert_operator (map snd (operations s)) (min_listen_time env) (max_listen_time env);
          s1 = s\<lparr>calls := calls s @ [c]\<rparr>
      in case upsert_operator env (calls s) (map snd (operations s))
                (min_listen_time env) (max_listen_time env) of
           Ok u \<Rightarrow> insert_observers env (always_listen s1) s1
         | HTTPError code cont msg \<Rightarrow>
             (Some (flask_abort env code
                      (Some (''Error updating InterUSS Platform Operator entry: '' @ cont))), s1)
         | OtherException \<Rightarrow> (Some (Raised ExternalException), s1))"

section \<open>Control and status endpoints\<close>

definition status_endpoint :: "env \<Rightarrow> request \<Rightarrow> state \<Rightarrow> outcome \<times> state" where
  "status_endpoint env req s =
     (Returned (Jsonify (PDict [(PStr ''status'', PStr ''success''),
                                (PStr ''operations'', PList (map fst (operations s))),
                                (PStr ''uss_baseurl'', PStr (uss_baseurl env))])) 200, s)"

text \<open>
  The validation loop of the always-listen PUT: \<open>re.match\<close> wants a string, and the
  first cell that does not match ends the request.
\<close>

fun check_cells :: "pyval list \<Rightarrow> outcome + string list" where
  "check_cells [] = Inr []"
| "check_cells (PStr slippy_cell # cells) =
     (if \<not> re_match_slippy slippy_cell
      then Inl (error_response 400 (''Invalid slippy cell: '' @ slippy_cell))
      else (case check_cells cells of Inl out \<Rightarrow> Inl out | Inr cs \<Rightarrow> Inr (slippy_cell # cs)))"
| "check_cells (v # cells) = Inl (Raised TypeError)"

text \<open>
  The list kept in \<open>always_listen\<close> is the sequence of cells the body iterates to
  (the body itself when it is a JSON array of strings).
\<close>

definition alwayslisten_endpoint :: "env \<Rightarrow> request \<Rightarrow> state \<Rightarrow> outcome \<times> state" where
  "alwayslisten_endpoint env req s =
     (if rmethod req = ''GET'' then (Returned (Jsonify (PList (map PStr (always_listen s)))) 200, s)
      else if rmethod req = ''PUT'' then
        (case validate_control env req of
           Some out \<Rightarrow> (out, s)
         | None \<Rightarrow>
             (case py_iter (rjson req) of
                Inl e \<Rightarrow> (Raised e, s)
              | Inr cells \<Rightarrow>
                  (case check_cells cells of
                     Inl out \<Rightarrow> (out, s)
                   | Inr cs \<Rightarrow>
                       (case update_operations env (s\<lparr>always_listen := cs\<rparr>) of
                          (Some out, s2) \<Rightarrow> (out, s2)
                        | (None, s2) \<Rightarrow> (Returned (Text []) 204, s2)))))
      else (Aborted 405 None, s))"

text \<open>
  The loop of the bulk deletion: each cell is checked and then removed from the grid
  before the next cell is looked at.
\<close>

fun remove_entries :: "env \<Rightarrow> pyval list \<Rightarrow> (pyval \<times> pyval) list \<Rightarrow> state \<Rightarrow> (outcome + (pyval \<times> pyval) list) \<times> state" where
  "remove_entries env [] result s = (Inr result, s)"
| "remove_entries env (PStr slippy_cell # cells) result s =
     (if \<not> re_match_slippy slippy_cell
      then (Inl (error_response 400 (''Invalid slippy cell: '' @ slippy_cell)), s)
      else
        (let s1 = s\<lparr>calls := calls s @ [Remove_operator_by_cell slippy_cell]\<rparr>
         in case remove_operator_by_cell env (calls s) slippy_cell of
              Ok response \<Rightarrow>
                (case (if status_code response = 200
                       then (case resp_json response of None \<Rightarrow> Inl ValueError | Some j \<Rightarrow> Inr j)
                       else Inr (PStr (resp_content response))) of
                   Inl e \<Rightarrow> (Inl (Raised e), s1)
                 | Inr cont \<Rightarrow>
                     remove_entries env cells
                       (AList.update (PStr slippy_cell)
                          (PDict [(PStr ''code'', PNum (of_nat (status_code response))),
                                  (PStr ''content'', cont)]) result) s1)
            | HTTPError code cont msg \<Rightarrow> (Inl (Raised ExternalException), s1)
            | OtherException \<Rightarrow> (Inl (Raised ExternalException), s1)))"
| "remove_entries env (v # cells) result s = (Inl (Raised TypeError), s)"

definition operator_entries_endpoint :: "env \<Rightarrow> request \<Rightarrow> state \<Rightarrow> outcome \<times> state" where
  "operator_entries_endpoint env req s =
     (case validate_control env req of
        Some out \<Rightarrow> (out, s)
      | None \<Rightarrow>
          (case py_iter (rjson req) of
             Inl e \<Rightarrow> (Raised e, s)
           | Inr cells \<Rightarrow>
               (case remove_entries env cells [] s of
                  (Inl out, s1) \<Rightarrow> (out, s1)
                | (Inr result, s1) \<Rightarrow> (Returned (Jsonify (PDict result)) 200, s1))))"

definition client_operation_endpoint :: "env \<Rightarrow> request \<Rightarrow> string \<Rightarrow> state \<Rightarrow> outcome \<times> state" where
  "client_operation_endpoint env req gufi s =
     (if rmethod req = ''GET'' then
        (case map_of (operations s) (PStr gufi) of
           Some operation \<Rightarrow> (Returned (Jsonify operation) 200, s)
         | None \<Rightarrow> (Aborted 404 None, s))
      else if rmethod req = ''PUT'' then
        (case validate_control env req of
           Some out \<Rightarrow> (out, s)
         | None \<Rightarrow>
             (case py_getitem (rjson req) ''gufi'' of
                Inl e \<Rightarrow> (Raised e, s)
              | Inr g \<Rightarrow>
                  (case dict_set (operations s) g (rjson req) of
                     Inl e \<Rightarrow> (Raised e, s)
                   | Inr ops \<Rightarrow>
                       (case update_operations env (s\<lparr>operations := ops\<rparr>) of
                          (Some out, s2) \<Rightarrow> (out, s2)
                        | (None, s2) \<Rightarrow> (Returned (Jsonify (rjson req)) 200, s2)))))
      else if rmethod req = ''DELETE'' then
        (case validate_control env req of
           Some out \<Rightarrow> (out, s)
         | None \<Rightarrow>
             (if map_of (operations s) (PStr gufi) \<noteq> None then
                (case update_operations env (s\<lparr>operations := AList.delete (PStr gufi) (operations s)\<rparr>) of
                   (Some out, s2) \<Rightarrow> (out, s2)
                 | (None, s2) \<Rightarrow> (Returned (Text []) 204, s2))
              else (error_response 404 (''GUFI '' @ gufi @ '' not found''), s)))
      else (Aborted 405 None, s))"

section \<open>The UVR coordinator\<close>

text \<open>
  The notification loop of the UVR publish. For each operator the URL is
  \<open>os.path.join(op['uss_baseurl'], 'uvrs', uvr['message_id'])\<close>; the operator is
  skipped when \<open>grid_client.uss_baseurl in url\<close>. Nothing catches an exception of
  \<open>get_header\<close> or of \<open>requests.put\<close>, nor a missing key: the loop ends there.
  \<open>notifications\<close> is the dict \<open>response['notifications']\<close> built so far.
\<close>

fun notify_operators :: "env \<Rightarrow> pyval \<Rightarrow> pyval list \<Rightarrow> (pyval \<times> pyval) list \<Rightarrow> state \<Rightarrow> (exc + (pyval \<times> pyval) list) \<times> state" where
  "notify_operators env uvr [] notifications s = (Inr notifications, s)"
| "notify_operators env uvr (op # ops) notifications s =
     (case py_getitem op ''uss_baseurl'' of
        Inl e \<Rightarrow> (Inl e, s)
      | Inr b \<Rightarrow>
          (case py_getitem uvr ''message_id'' of
             Inl e \<Rightarrow> (Inl e, s)
           | Inr m \<Rightarrow>
               (case (b, m) of
                  (PStr base, PStr mid) \<Rightarrow>
                    (let url = os_path_join base [''uvrs'', mid] in
                     if substr_in (uss_baseurl env) url then notify_operators env uvr ops notifications s
                     else
                       (let s1 = s\<lparr>calls := calls s @ [Get_header (uvr_scope env)]\<rparr> in
                        case get_header env (calls s) (uvr_scope env) of
                          Ok hdr \<Rightarrow>
                            (let s2 = s1\<lparr>calls := calls s1 @ [Requests_put url hdr uvr]\<rparr> in
                             case requests_put env (calls s1) url hdr uvr of
                               Ok result \<Rightarrow>
                                 (case py_getitem op ''uss'' of
                                    Inl e \<Rightarrow> (Inl e, s2)
                                  | Inr u \<Rightarrow>
                                      (case dict_set notifications u
                                              (PDict [(PStr ''code'', PNum (of_nat (status_code result))),
                                                      (PStr ''content'', PStr (resp_content result))]) of
                                         Inl e \<Rightarrow> (Inl e, s2)
                                       | Inr notifications' \<Rightarrow>
                                           notify_operators env uvr ops notifications' s2))
                             | HTTPError code cont msg \<Rightarrow> (Inl ExternalException, s2)
                             | OtherException \<Rightarrow> (Inl ExternalException, s2))
                        | HTTPError code cont msg \<Rightarrow> (Inl ExternalException, s1)
                        | OtherException \<Rightarrow> (Inl ExternalException, s1)))
                | _ \<Rightarrow> (Inl AttributeError, s))))"

text \<open>\<open>[u for u in grid_contents['data']['uvrs'] if u['message_id'] == message_id]\<close>.\<close>

definition matching_uvrs :: "pyval \<Rightarrow> string \<Rightarrow> exc + pyval list" where
  "matching_uvrs grid_contents message_id =
     (case py_getitem grid_contents ''data'' of
        Inl e \<Rightarrow> Inl e
      | Inr d \<Rightarrow>
          (case py_getitem d ''uvrs'' of
             Inl e \<Rightarrow> Inl e
           | Inr us \<Rightarrow>
               (case py_iter us of
                  Inl e \<Rightarrow> Inl e
                | Inr ul \<Rightarrow> filter_by_field ''message_id'' (PStr message_id) ul)))"

text \<open>\<open>[op for op in grid_contents['data']['operators'] if op['announcement_level'] == 'ALL']\<close>.\<close>

definition all_level_operators :: "pyval \<Rightarrow> exc + pyval list" where
  "all_level_operators grid_contents =
     (case py_getitem grid_contents ''data'' of
        Inl e \<Rightarrow> Inl e
      | Inr d \<Rightarrow>
          (case py_getitem d ''operators'' of
             Inl e \<Rightarrow> Inl e
           | Inr os \<Rightarrow>
               (case py_iter os of
                  Inl e \<Rightarrow> Inl e
                | Inr ol \<Rightarrow> filter_by_field ''announcement_level'' (PStr ''ALL'') ol)))"

text \<open>The part of the publish that follows a successful grid upsert.\<close>

definition publish_uvr :: "env \<Rightarrow> string \<Rightarrow> pyval \<Rightarrow> state \<Rightarrow> outcome \<times> state" where
  "publish_uvr env message_id grid_contents s =
     (case matching_uvrs grid_contents message_id of
        Inl e \<Rightarrow> (Raised e, s)
      | Inr [] \<Rightarrow> (Raised IndexError, s)
      | Inr (uvr # rest) \<Rightarrow>
          (case py_getitem uvr ''message_id'' of
             Inl e \<Rightarrow> (Raised e, s)
           | Inr k \<Rightarrow>
               (case dict_set (uvrs s) k uvr of
                  Inl e \<Rightarrow> (Raised e, s)
                | Inr cache \<Rightarrow>
                    (let s1 = s\<lparr>uvrs := cache\<rparr> in
                     case all_level_operators grid_contents of
                       Inl e \<Rightarrow> (Raised e, s1)
                     | Inr operators \<Rightarrow>
                         (case notify_operators env uvr operators [] s1 of
                            (Inl e, s2) \<Rightarrow> (Raised e, s2)
                          | (Inr notifications, s2) \<Rightarrow>
                              (Returned (Jsonify (PDict [(PStr ''uvr'', uvr),
                                                         (PStr ''notifications'', PDict notifications)])) 200,
                               s2))))))"

text \<open>\<open>grid_client.remove_uvr(uvr)\<close> inside \<open>try ... except requests.HTTPError\<close>.\<close>

definition try_remove_uvr :: "env \<Rightarrow> pyval \<Rightarrow> state \<Rightarrow> outcome option \<times> state" where
  "try_remove_uvr env uvr s =
     (let s1 = s\<lparr>calls := calls s @ [Remove_uvr uvr]\<rparr> in
      case remove_uvr env (calls s) uvr of
        Ok u \<Rightarrow> (None, s1)
      | HTTPError code cont msg \<Rightarrow> (Some (error_response code msg), s1)
      | OtherException \<Rightarrow> (Some (Raised ExternalException), s1))"

text \<open>\<open>[interuss_platform.Coord(p[1], p[0]) for p in uvr['geography']['coordinates'][0]]\<close>.\<close>

definition coord :: "pyval \<Rightarrow> exc + (pyval \<times> pyval)" where
  "coord p =
     (case py_index p 1 of
        Inl e \<Rightarrow> Inl e
      | Inr lat \<Rightarrow> (case py_index p 0 of Inl e \<Rightarrow> Inl e | Inr lng \<Rightarrow> Inr (lat, lng)))"

definition request_area :: "pyval \<Rightarrow> exc + (pyval \<times> pyval) list" where
  "request_area uvr =
     (case py_getitem uvr ''geography'' of
        Inl e \<Rightarrow> Inl e
      | Inr g \<Rightarrow>
          (case py_getitem g ''coordinates'' of
             Inl e \<Rightarrow> Inl e
           | Inr cs \<Rightarrow>
               (case py_index cs 0 of
                  Inl e \<Rightarrow> Inl e
                | Inr ring \<Rightarrow>
                    (case py_iter ring of Inl e \<Rightarrow> Inl e | Inr ps \<Rightarrow> map_e coord ps))))"

definition client_uvr_endpoint :: "env \<Rightarrow> request \<Rightarrow> string \<Rightarrow> state \<Rightarrow> outcome \<times> state" where
  "client_uvr_endpoint env req message_id s =
     (if rmethod req = ''GET'' then
        (case map_of (uvrs s) (PStr message_id) of
           Some uvr \<Rightarrow> (Returned (Jsonify uvr) 200, s)
         | None \<Rightarrow> (Aborted 404 None, s))
      else if rmethod req = ''PUT'' then
        (case validate_control env req of
           Some out \<Rightarrow> (out, s)
         | None \<Rightarrow>
             (let s1 = s\<lparr>calls := calls s @ [Upsert_uvr (rjson req)]\<rparr> in
              case upsert_uvr env (calls s) (rjson req) of
                HTTPError code cont msg \<Rightarrow> (error_response code msg, s1)
              | OtherException \<Rightarrow> (Raised ExternalException, s1)
              | Ok grid_contents \<Rightarrow> publish_uvr env message_id grid_contents s1))
      else if rmethod req = ''DELETE'' then
        (case validate_control env req of
           Some out \<Rightarrow> (out, s)
         | None \<Rightarrow>
             (case map_of (uvrs s) (PStr message_id) of
                Some cached \<Rightarrow>
                  (case try_remove_uvr env cached s of
                     (Some out, s1) \<Rightarrow> (out, s1)
                   | (None, s1) \<Rightarrow>
                       (Returned (Text []) 204, s1\<lparr>uvrs := AList.delete (PStr message_id) (uvrs s1)\<rparr>))
              | None \<Rightarrow>
                  (case request_area (rjson req) of
                     Inl e \<Rightarrow> (Raised e, s)
                   | Inr area \<Rightarrow>
                       (let s1 = s\<lparr>calls := calls s @ [Get_operators_by_area area]\<rparr> in
                        case get_operators_by_area env (calls s) area of
                          HTTPError code cont msg \<Rightarrow> (Raised ExternalException, s1)
                        | OtherException \<Rightarrow> (Raised ExternalException, s1)
                        | Ok (r1, grid_uvrs, r3) \<Rightarrow>
                            (case py_iter grid_uvrs of
                               Inl e \<Rightarrow> (Raised e, s1)
                             | Inr ul \<Rightarrow>
                                 (case filter_by_field ''message_id'' (PStr message_id) ul of
                                    Inl e \<Rightarrow> (Raised e, s1)
                                  | Inr [] \<Rightarrow>
                                      (error_response 404 (''UVR '' @ message_id @ '' not found''), s1)
                                  | Inr (uvr # rest) \<Rightarrow>
                                      (case try_remove_uvr env uvr s1 of
                                         (Some out, s2) \<Rightarrow> (out, s2)
                                       | (None, s2) \<Rightarrow> (Returned (Text []) 204, s2))))))))
      else (Aborted 405 None, s))"

section \<open>Reading and clearing the notification log\<close>

definition get_notifications :: "env \<Rightarrow> request \<Rightarrow> string \<Rightarrow> state \<Rightarrow> outcome \<times> state" where
  "get_notifications env req notification_key s =
     (case validate_control env req of
        Some out \<Rightarrow> (out, s)
      | None \<Rightarrow>
          (case map_of (notification_logs s) notification_key of
             Some msgs \<Rightarrow> (Returned (Jsonify (PList (map (entry_dict True) msgs))) 200, s)
           | None \<Rightarrow> (error_response 404 (''Key '' @ notification_key @ '' not found''), s)))"

text \<open>\<open>flask.request.args.get(name, default)\<close>.\<close>

definition arg_or :: "request \<Rightarrow> string \<Rightarrow> string \<Rightarrow> string" where
  "arg_or req name d = (case args req name of None \<Rightarrow> d | Some v \<Rightarrow> v)"

definition del_notifications :: "env \<Rightarrow> request \<Rightarrow> state \<Rightarrow> outcome \<times> state" where
  "del_notifications env req s =
     (case validate_control env req of
        Some out \<Rightarrow> (out, s)
      | None \<Rightarrow>
          (if rmethod req = ''GET'' then
             (if string_to_bool (arg_or req ''details'' ''false'') then
                (let logs = (case args req ''uss'' of
                               None \<Rightarrow> notification_logs s
                             | Some uss_filter \<Rightarrow>
                                 if uss_filter \<noteq> []
                                 then map (\<lambda>(key, msgs). (key, filter (\<lambda>e. uss e = PStr uss_filter) msgs))
                                        (notification_logs s)
                                 else notification_logs s);
                     exclude_content = string_to_bool (arg_or req ''exclude_content'' ''false'')
                 in (Returned (Jsonify (PDict (map (\<lambda>(key, values).
                        (PStr key, PList (map (entry_dict (\<not> exclude_content)) values))) logs))) 200, s))
              else
                (Returned (Jsonify (PDict (map (\<lambda>(key, value).
                    (PStr key, PList (map (\<lambda>e. PStr (source e @ '' '' @ received e)) value)))
                    (notification_logs s)))) 200, s))
           else if rmethod req = ''DELETE'' then
             (let n = length (notification_logs s) in
              (Returned (Text (''Deleted '' @ str_of_nat n @ '' notification keys'')) 200,
               s\<lparr>notification_logs := []\<rparr>))
           else (Aborted 405 None, s)))"

section \<open>USS endpoints\<close>

text \<open>
  The endpoints peers call. Each validates the access token with no required scope and
  records the body. Where the handler reads \<open>entry['action']\<close> for its log line, an
  entry without that key raises \<open>KeyError\<close> after the entry has been recorded.
\<close>

definition log_only :: "env \<Rightarrow> request \<Rightarrow> string \<Rightarrow> string \<Rightarrow> state \<Rightarrow> outcome \<times> state" where
  "log_only env req key src s =
     (case log_request_body env req key src PNone s of
        (Inl e, s1) \<Rightarrow> (Raised e, s1)
      | (Inr entry, s1) \<Rightarrow> (Returned (Text []) 204, s1))"

definition log_with_action :: "env \<Rightarrow> request \<Rightarrow> string \<Rightarrow> string \<Rightarrow> string \<Rightarrow> state \<Rightarrow> outcome \<times> state" where
  "log_with_action env req key src field s =
     (case py_get (rjson req) field (PStr ''???'') of
        Inl e \<Rightarrow> (Raised e, s)
      | Inr act \<Rightarrow>
          (case log_request_body env req key src act s of
             (Inl e, s1) \<Rightarrow> (Raised e, s1)
           | (Inr entry, s1) \<Rightarrow>
               (case action entry of
                  None \<Rightarrow> (Raised KeyError, s1)
                | Some a \<Rightarrow> (Returned (Text []) 204, s1))))"

definition uvrs_endpoint :: "env \<Rightarrow> request \<Rightarrow> string \<Rightarrow> state \<Rightarrow> outcome \<times> state" where
  "uvrs_endpoint env req message_id s =
     (case validate_access_token env req None of
        Some out \<Rightarrow> (out, s)
      | None \<Rightarrow> log_only env req message_id ''uvrs'' s)"

definition utm_messages_endpoint :: "env \<Rightarrow> request \<Rightarrow> string \<Rightarrow> state \<Rightarrow> outcome \<times> state" where
  "utm_messages_endpoint env req message_id s =
     (case validate_access_token env req None of
        Some out \<Rightarrow> (out, s)
      | None \<Rightarrow> log_with_action env req message_id ''utm_messages'' ''message_type'' s)"

definition uss_instances_endpoint :: "env \<Rightarrow> request \<Rightarrow> string \<Rightarrow> state \<Rightarrow> outcome \<times> state" where
  "uss_instances_endpoint env req uss_instance_id s =
     (case validate_access_token env req None of
        Some out \<Rightarrow> (out, s)
      | None \<Rightarrow> log_only env req uss_instance_id ''uss'' s)"

definition negotiations_endpoint :: "env \<Rightarrow> request \<Rightarrow> string \<Rightarrow> state \<Rightarrow> outcome \<times> state" where
  "negotiations_endpoint env req message_id s =
     (case validate_access_token env req None of
        Some out \<Rightarrow> (out, s)
      | None \<Rightarrow> log_only env req message_id ''negotiations'' s)"

definition positions_endpoint :: "env \<Rightarrow> request \<Rightarrow> string \<Rightarrow> state \<Rightarrow> outcome \<times> state" where
  "positions_endpoint env req position_id s =
     (case validate_access_token env req None of
        Some out \<Rightarrow> (out, s)
      | None \<Rightarrow> log_only env req position_id ''positions'' s)"

definition get_operations_endpoint :: "env \<Rightarrow> request \<Rightarrow> state \<Rightarrow> outcome \<times> state" where
  "get_operations_endpoint env req s =
     (case validate_access_token env req None of
        Some out \<Rightarrow> (out, s)
      | None \<Rightarrow> (Returned (Jsonify (PList (map snd (operations s)))) 200, s))"

definition operation_endpoint :: "env \<Rightarrow> request \<Rightarrow> string \<Rightarrow> state \<Rightarrow> outcome \<times> state" where
  "operation_endpoint env req gufi s =
     (case validate_access_token env req None of
        Some out \<Rightarrow> (out, s)
      | None \<Rightarrow>
          (if rmethod req = ''GET'' then
             (case map_of (operations s) (PStr gufi) of
                Some operation \<Rightarrow> (Returned (Jsonify operation) 200, s)
              | None \<Rightarrow> (Aborted 404 (Some (''No operation with GUFI '' @ gufi)), s))
           else if rmethod req = ''PUT'' then log_with_action env req gufi ''operations'' ''state'' s
           else (Aborted 405 None, s)))"

definition enhanced_operation_endpoint :: "env \<Rightarrow> request \<Rightarrow> string \<Rightarrow> state \<Rightarrow> outcome \<times> state" where
  "enhanced_operation_endpoint env req gufi s =
     (case validate_access_token env req None of
        Some out \<Rightarrow> (out, s)
      | None \<Rightarrow>
          (if rmethod req = ''GET'' then
             (Aborted 500 (Some ''Enhanced operations endpoint not yet supported''), s)
           else if rmethod req = ''PUT'' then log_only env req gufi ''enhanced_operations'' s
           else (Aborted 405 None, s)))"

section \<open>The routing table\<close>

text \<open>The URL rules of the application, each with the variable part of its path.\<close>

datatype route =
    Status
  | Client_alwayslisten
  | Client_operator_entries
  | Client_operation string
  | Client_uvr string
  | Notifications_key string
  | Notifications
  | Uvrs string
  | Utm_messages string
  | Uss string
  | Negotiations string
  | Positions string
  | Operations
  | Operations_gufi string
  | Enhanced_operations string

fun dispatch :: "env \<Rightarrow> route \<Rightarrow> request \<Rightarrow> state \<Rightarrow> outcome \<times> state" where
  "dispatch env Status req s = status_endpoint env req s"
| "dispatch env Client_alwayslisten req s = alwayslisten_endpoint env req s"
| "dispatch env Client_operator_entries req s = operator_entries_endpoint env req s"
| "dispatch env (Client_operation gufi) req s = client_operation_endpoint env req gufi s"
| "dispatch env (Client_uvr message_id) req s = client_uvr_endpoint env req message_id s"
| "dispatch env (Notifications_key k) req s = get_notifications env req k s"
| "dispatch env Notifications req s = del_notifications env req s"
| "dispatch env (Uvrs message_id) req s = uvrs_endpoint env req message_id s"
| "dispatch env (Utm_messages message_id) req s = utm_messages_endpoint env req message_id s"
| "dispatch env (Uss i) req s = uss_instances_endpoint env req i s"
| "dispatch env (Negotiations message_id) req s = negotiations_endpoint env req message_id s"
| "dispatch env (Positions i) req s = positions_endpoint env req i s"
| "dispatch env Operations req s = get_operations_endpoint env req s"
| "dispatch env (Operations_gufi gufi) req s = operation_endpoint env req gufi s"
| "dispatch env (Enhanced_operations gufi) req s = enhanced_operation_endpoint env req gufi s"

text \<open>
  The rule and method pairs whose handler calls \<open>_validate_control\<close> before anything
  else. The status query and the three GET branches of the always-listen list, the
  operations and the UVRs do not call it.
\<close>

fun control_checked :: "route \<Rightarrow> string \<Rightarrow> bool" where
  "control_checked Client_alwayslisten m = (m = ''PUT'')"
| "control_checked Client_operator_entries m = True"
| "control_checked (Client_operation gufi) m = (m = ''PUT'' \<or> m = ''DELETE'')"
| "control_checked (Client_uvr message_id) m = (m = ''PUT'' \<or> m = ''DELETE'')"
| "control_checked (Notifications_key k) m = True"
| "control_checked Notifications m = True"
| "control_checked r m = False"

text \<open>The rules of the peer-facing endpoints, which validate the access token.\<close>

fun token_gated :: "route \<Rightarrow> bool" where
  "token_gated (Uvrs message_id) = True"
| "token_gated (Utm_messages message_id) = True"
| "token_gated (Uss i) = True"
| "token_gated (Negotiations message_id) = True"
| "token_gated (Positions i) = True"
| "token_gated Operations = True"
| "token_gated (Operations_gufi gufi) = True"
| "token_gated (Enhanced_operations gufi) = True"
| "token_gated r = False"

section \<open>Concrete requests and collaborators\<close>

text \<open>
  What \<open>jwt.decode(token, key, algorithms='RS256')\<close> of the token library does with a
  token, told by the facts about the token: one that is not well formed or does not
  verify under the key raises \<open>DecodeError\<close> (\<open>InvalidSignatureError\<close> is a subclass);
  one whose \<open>nbf\<close> lies ahead raises \<open>ImmatureSignatureError\<close>, which is neither of the
  two exceptions the handler catches; one whose \<open>exp\<close> has passed raises
  \<open>ExpiredSignatureError\<close>; any other gives its claims.
\<close>

record token_facts =
  well_formed :: bool
  signed_for :: string
  seconds_to_exp :: int
  seconds_to_nbf :: int
  token_claims :: pyval

definition library_decode :: "token_facts \<Rightarrow> string \<Rightarrow> jwt_result" where
  "library_decode t key =
     (if \<not> well_formed t \<or> signed_for t \<noteq> key then DecodeError
      else if 0 < seconds_to_nbf t then InvalidTokenError
      else if seconds_to_exp t \<le> 0 then ExpiredSignatureError
      else Claims (token_claims t))"

text \<open>
  Four tokens: \<open>valid\<close>, \<open>expired\<close> and \<open>immature\<close> are well formed and signed for
  the configured key, the second past its expiry, the third with an hour to its expiry
  and five minutes to its \<open>nbf\<close>; any other string is not a token at all.
\<close>

definition example_token :: "string \<Rightarrow> token_facts" where
  "example_token token =
     \<lparr>well_formed = (token \<in> set [''valid'', ''expired'', ''immature'']),
      signed_for = ''-----BEGIN PUBLIC KEY-----'',
      seconds_to_exp = (if token = ''expired'' then - 60 else 3600),
      seconds_to_nbf = (if token = ''immature'' then 300 else 0),
      token_claims = PDict [(PStr ''scope'', PList [PStr ''other.scope''])]\<rparr>"

definition example_jwt :: "string \<Rightarrow> string \<Rightarrow> jwt_result" where
  "example_jwt token key = library_decode (example_token token) key"

text \<open>
  A grid that accepts every call and peers that answer 204, used to run the handlers
  on concrete requests, and the status codes the framework's \<open>abort\<close> knows.
\<close>

definition example_abort_codes :: "nat list" where
  "example_abort_codes =
     [400, 401, 403, 404, 405, 406, 408, 409, 410, 411, 412, 413, 414, 415, 416, 417, 418,
      422, 428, 429, 431, 500, 501, 502, 503, 504, 505]"

definition example_uvr :: "string \<Rightarrow> pyval" where
  "example_uvr message_id =
     PDict [(PStr ''message_id'', PStr message_id), (PStr ''uss_name'', PStr ''uss-a'')]"

definition example_operator :: "string \<Rightarrow> string \<Rightarrow> string \<Rightarrow> pyval" where
  "example_operator name baseurl level =
     PDict [(PStr ''uss'', PStr name), (PStr ''uss_baseurl'', PStr baseurl),
            (PStr ''announcement_level'', PStr level)]"

definition example_snapshot :: "pyval list \<Rightarrow> pyval list \<Rightarrow> pyval" where
  "example_snapshot us os =
     PDict [(PStr ''status'', PStr ''success''),
            (PStr ''data'', PDict [(PStr ''uvrs'', PList us), (PStr ''operators'', PList os)])]"

definition ok_response :: http_response where
  "ok_response = \<lparr>status_code = 204, resp_content = [], resp_json = None\<rparr>"

definition example_env :: env where
  "example_env =
     \<lparr>control_authorization = Some ''secret'',
      public_key = ''-----BEGIN PUBLIC KEY-----'',
      min_listen_time = ''2019-01-01T00:00:00Z'',
      max_listen_time = ''2019-12-31T00:00:00Z'',
      uss_baseurl = ''http://uss-a.example'',
      uvr_scope = ''uvr.scope'',
      now_isoformat = ''2019-06-01T12:00:00'',
      jwt_decode = example_jwt,
      upsert_operator = (\<lambda>tr ops lo hi. Ok ()),
      insert_observer = (\<lambda>tr cell lo hi. Ok ()),
      remove_operator_by_cell = (\<lambda>tr cell. Ok ok_response),
      upsert_uvr = (\<lambda>tr uvr. Ok (example_snapshot [uvr] [])),
      remove_uvr = (\<lambda>tr uvr. Ok ()),
      get_operators_by_area = (\<lambda>tr area. Ok (PList [], PList [], PList [])),
      get_header = (\<lambda>tr scope. Ok (PDict [(PStr ''Authorization'', PStr ''Bearer t'')])),
      requests_put = (\<lambda>tr url hdr body. Ok ok_response),
      abort_known = (\<lambda>code. code \<in> set example_abort_codes)\<rparr>"

definition empty_state :: state where
  "empty_state = \<lparr>operations = [], uvrs = [], notification_logs = [], always_listen = [], calls = []\<rparr>"

text \<open>A request carrying the control credential, one carrying a token, one carrying nothing.\<close>

definition control_request :: "string \<Rightarrow> pyval \<Rightarrow> request" where
  "control_request m b =
     \<lparr>rmethod = m, headers = [''Authorization'' \<mapsto> ''secret''], rjson = b, args = Map.empty\<rparr>"

definition token_request :: "string \<Rightarrow> string \<Rightarrow> pyval \<Rightarrow> request" where
  "token_request token m b =
     \<lparr>rmethod = m, headers = [''Authorization'' \<mapsto> ''Bearer '' @ token], rjson = b, args = Map.empty\<rparr>"

definition anonymous_request :: "string \<Rightarrow> pyval \<Rightarrow> request" where
  "anonymous_request m b = \<lparr>rmethod = m, headers = Map.empty, rjson = b, args = Map.empty\<rparr>"

text \<open>
  A run of \<open>record\<close> calls under one key, each with its own clock, request, source and
  action.
\<close>

fun is_dict :: "pyval \<Rightarrow> bool" where
  "is_dict (PDict kvs) = True"
| "is_dict v = False"

fun record_calls :: "string \<Rightarrow> (env \<times> request \<times> string \<times> pyval) list \<Rightarrow> state \<Rightarrow> state" where
  "record_calls key [] s = s"
| "record_calls key ((env, req, src, act) # rs) s =
     record_calls key rs (snd (log_request_body env req key src act s))"

definition uvr_notice :: "env \<times> request \<times> string \<times> pyval" where
  "uvr_notice = (example_env, token_request ''valid'' ''PUT'' (example_uvr ''m1''), ''uvrs'', PNone)"

text \<open>A state with one operation, one cached UVR and one always-listen cell.\<close>

definition example_operation :: "string \<Rightarrow> pyval" where
  "example_operation gufi =
     PDict [(PStr ''gufi'', PStr gufi), (PStr ''uss_name'', PStr ''uss-a''),
            (PStr ''state'', PStr ''ACTIVATED'')]"

definition registry_state :: state where
  "registry_state =
     \<lparr>operations = [(PStr ''g1'', example_operation ''g1'')],
      uvrs = [(PStr ''m1'', example_uvr ''m1'')],
      notification_logs = [],
      always_listen = [''10/1/2''],
      calls = []\<rparr>"

text \<open>A grid that rejects the operator entry, and one that rejects every observer.\<close>

definition rejecting_env :: env where
  "rejecting_env =
     example_env\<lparr>upsert_operator := (\<lambda>tr ops lo hi. HTTPError 503 ''grid unavailable'' ''503 Server Error'')\<rparr>"

definition observer_rejecting_env :: env where
  "observer_rejecting_env =
     example_env\<lparr>insert_observer := (\<lambda>tr cell lo hi. HTTPError 409 ''conflict'' ''409 Client Error'')\<rparr>"

section \<open>Reading the trace of a UVR publish\<close>

text \<open>The URLs of the notification PUTs in a trace, in order.\<close>

fun put_urls :: "call list \<Rightarrow> string list" where
  "put_urls [] = []"
| "put_urls (Requests_put url hdr b # cs) = url # put_urls cs"
| "put_urls (c # cs) = put_urls cs"

text \<open>The base URL of a participant entry, when it has one and it is a string.\<close>

definition operator_baseurl :: "pyval \<Rightarrow> string option" where
  "operator_baseurl op =
     (case py_getitem op ''uss_baseurl'' of Inr (PStr b) \<Rightarrow> Some b | _ \<Rightarrow> None)"

text \<open>
  The URLs the publish notifies, given the participants it selected: the notification
  URL of each, unless this participant's base URL occurs in it.
\<close>

definition notified_urls :: "env \<Rightarrow> string \<Rightarrow> pyval list \<Rightarrow> string list" where
  "notified_urls env message_id ops =
     filter (\<lambda>url. \<not> substr_in (uss_baseurl env) url)
       (map (\<lambda>b. os_path_join b [''uvrs'', message_id]) (List.map_filter operator_baseurl ops))"

text \<open>The claim's reading of the same set: every selected participant whose base URL differs from this participant's.\<close>

definition peers_by_baseurl :: "env \<Rightarrow> string \<Rightarrow> pyval list \<Rightarrow> string list" where
  "peers_by_baseurl env message_id ops =
     map (\<lambda>b. os_path_join b [''uvrs'', message_id])
       (filter (\<lambda>b. b \<noteq> uss_baseurl env) (List.map_filter operator_baseurl ops))"

definition is_all_level :: "pyval \<Rightarrow> bool" where
  "is_all_level op = (py_getitem op ''announcement_level'' = Inr (PStr ''ALL''))"

text \<open>
  A grid whose snapshot lists this participant, two other participants at level
  \<open>ALL\<close> and one at level \<open>RESTRICTED\<close>; and a grid whose snapshot lists one other
  participant, whose base URL begins like this participant's.
\<close>

definition four_operators :: "pyval list" where
  "four_operators =
     [example_operator ''uss-a'' ''http://uss-a.example'' ''ALL'',
      example_operator ''uss-b'' ''http://uss-b.example'' ''ALL'',
      example_operator ''uss-c'' ''http://uss-c.example/'' ''RESTRICTED'',
      example_operator ''uss-d'' ''http://uss-d.example/api'' ''ALL'']"

definition busy_env :: env where
  "busy_env = example_env\<lparr>upsert_uvr := (\<lambda>tr uvr. Ok (example_snapshot [uvr] four_operators))\<rparr>"

definition lookalike_env :: env where
  "lookalike_env =
     example_env\<lparr>upsert_uvr := (\<lambda>tr uvr. Ok (example_snapshot [uvr]
        [example_operator ''uss-b'' ''http://uss-a.example.org'' ''ALL'']))\<rparr>"

text \<open>A grid whose snapshot holds no UVR at all.\<close>

definition forgetful_env :: env where
  "forgetful_env = example_env\<lparr>upsert_uvr := (\<lambda>tr uvr. Ok (example_snapshot [] four_operators))\<rparr>"

text \<open>
  A deletion request carrying its polygon, a grid whose area query returns two UVRs,
  and a grid that refuses to withdraw.
\<close>

definition example_geo_uvr :: "string \<Rightarrow> pyval" where
  "example_geo_uvr message_id =
     PDict [(PStr ''message_id'', PStr message_id),
            (PStr ''geography'',
             PDict [(PStr ''type'', PStr ''Polygon''),
                    (PStr ''coordinates'',
                     PList [PList [PList [PNum (-1221 / 10), PNum 47],
                                   PList [PNum (-122), PNum 47],
                                   PList [PNum (-122), PNum (475 / 10)],
                                   PList [PNum (-1221 / 10), PNum 47]]])])]"




definition example_area :: "(pyval \<times> pyval) list" where
  "example_area =
     [(PNum 47, PNum (-1221 / 10)), (PNum 47, PNum (-122)), (PNum (475 / 10), PNum (-122)),
      (PNum 47, PNum (-1221 / 10))]"

definition area_env :: env where
  "area_env =
     example_env\<lparr>get_operators_by_area :=
       (\<lambda>tr area. Ok (PList [], PList [example_uvr ''m7'', example_uvr ''m1''], PList []))\<rparr>"

definition stubborn_env :: env where
  "stubborn_env =
     area_env\<lparr>remove_uvr := (\<lambda>tr uvr. HTTPError 404 ''no such UVR'' ''404 Client Error: Not Found'')\<rparr>"

text \<open>
  A grid that rejects the operator entry with status 507, and peers none of which can
  be reached.
\<close>

definition full_env :: env where
  "full_env =
     example_env\<lparr>upsert_operator :=
       (\<lambda>tr ops lo hi. HTTPError 507 ''Insufficient Storage'' ''507 Server Error: Insufficient Storage'')\<rparr>"

definition unreachable_env :: env where
  "unreachable_env = busy_env\<lparr>requests_put := (\<lambda>tr url hdr b. OtherException)\<rparr>"

section \<open>Facts about the concrete requests and collaborators\<close>

lemma token_request_sel [simp]:
  "rmethod (token_request t m b) = m" "rjson (token_request t m b) = b"
  by (simp_all add: token_request_def)

lemma control_request_sel [simp]:
  "rmethod (control_request m b) = m" "rjson (control_request m b) = b"
  by (simp_all add: control_request_def)

lemma anonymous_request_sel [simp]:
  "rmethod (anonymous_request m b) = m" "rjson (anonymous_request m b) = b"
  "headers (anonymous_request m b) h = None"
  by (simp_all add: anonymous_request_def)

lemma access_token_valid: "access_token (token_request ''valid'' m b) = Some ''valid''"
  by (simp add: access_token_def token_request_def py_replace.simps)

lemma access_token_expired: "access_token (token_request ''expired'' m b) = Some ''expired''"
  by (simp add: access_token_def token_request_def py_replace.simps)

lemma access_token_garbage: "access_token (token_request ''garbage'' m b) = Some ''garbage''"
  by (simp add: access_token_def token_request_def py_replace.simps)

lemma example_env_sel [simp]:
  "control_authorization example_env = Some ''secret''"
  "uss_baseurl example_env = ''http://uss-a.example''"
  "now_isoformat example_env = ''2019-06-01T12:00:00''"
  "jwt_decode example_env = example_jwt"
  "min_listen_time example_env = ''2019-01-01T00:00:00Z''"
  "max_listen_time example_env = ''2019-12-31T00:00:00Z''"
  "uvr_scope example_env = ''uvr.scope''"
  "public_key example_env = ''-----BEGIN PUBLIC KEY-----''"
  "abort_known example_env code = (code \<in> set example_abort_codes)"
  by (simp_all add: example_env_def)

lemma example_env_calls [simp]:
  "upsert_operator example_env tr ops lo hi = Ok ()"
  "insert_observer example_env tr cell lo hi = Ok ()"
  "remove_operator_by_cell example_env tr cell = Ok ok_response"
  "upsert_uvr example_env tr uvr = Ok (example_snapshot [uvr] [])"
  "remove_uvr example_env tr uvr = Ok ()"
  "get_operators_by_area example_env tr area = Ok (PList [], PList [], PList [])"
  "get_header example_env tr scope = Ok (PDict [(PStr ''Authorization'', PStr ''Bearer t'')])"
  "requests_put example_env tr url hdr b = Ok ok_response"
  by (simp_all add: example_env_def)

lemma example_token_valid [simp]:
  "validate_access_token example_env (token_request ''valid'' m b) None = None"
  by (simp add: validate_access_token_def access_token_valid example_jwt_def library_decode_def
      example_token_def)

lemma example_control_valid [simp]:
  "validate_control example_env (control_request m b) = None"
  by (simp add: validate_control_def control_request_def)

lemma empty_state_sel [simp]:
  "operations empty_state = []" "uvrs empty_state = []" "notification_logs empty_state = []"
  "always_listen empty_state = []" "calls empty_state = []"
  by (simp_all add: empty_state_def)

lemma rejecting_env_sel [simp]:
  "control_authorization rejecting_env = Some ''secret''"
  "min_listen_time rejecting_env = ''2019-01-01T00:00:00Z''"
  "max_listen_time rejecting_env = ''2019-12-31T00:00:00Z''"
  "upsert_operator rejecting_env tr ops lo hi = HTTPError 503 ''grid unavailable'' ''503 Server Error''"
  "abort_known rejecting_env code = (code \<in> set example_abort_codes)"
  by (simp_all add: rejecting_env_def)

lemma observer_rejecting_env_sel [simp]:
  "control_authorization observer_rejecting_env = Some ''secret''"
  "min_listen_time observer_rejecting_env = ''2019-01-01T00:00:00Z''"
  "max_listen_time observer_rejecting_env = ''2019-12-31T00:00:00Z''"
  "upsert_operator observer_rejecting_env tr ops lo hi = Ok ()"
  "insert_observer observer_rejecting_env tr cell lo hi = HTTPError 409 ''conflict'' ''409 Client Error''"
  "abort_known observer_rejecting_env code = (code \<in> set example_abort_codes)"
  by (simp_all add: observer_rejecting_env_def)

lemma full_env_sel [simp]:
  "control_authorization full_env = Some ''secret''"
  "min_listen_time full_env = ''2019-01-01T00:00:00Z''"
  "max_listen_time full_env = ''2019-12-31T00:00:00Z''"
  "upsert_operator full_env tr ops lo hi =
     HTTPError 507 ''Insufficient Storage'' ''507 Server Error: Insufficient Storage''"
  "abort_known full_env code = (code \<in> set example_abort_codes)"
  by (simp_all add: full_env_def)

lemma control_request_valid:
  "control_authorization env = Some ''secret'' \<Longrightarrow> validate_control env (control_request m b) = None"
  by (simp add: validate_control_def control_request_def)

lemma busy_env_sel [simp]:
  "control_authorization busy_env = Some ''secret''"
  "uss_baseurl busy_env = ''http://uss-a.example''"
  "uvr_scope busy_env = ''uvr.scope''"
  "upsert_uvr busy_env tr uvr = Ok (example_snapshot [uvr] four_operators)"
  "get_header busy_env tr scope = Ok (PDict [(PStr ''Authorization'', PStr ''Bearer t'')])"
  "requests_put busy_env tr url hdr b = Ok ok_response"
  by (simp_all add: busy_env_def)

lemma unreachable_env_sel [simp]:
  "control_authorization unreachable_env = Some ''secret''"
  "uss_baseurl unreachable_env = ''http://uss-a.example''"
  "uvr_scope unreachable_env = ''uvr.scope''"
  "upsert_uvr unreachable_env tr uvr = Ok (example_snapshot [uvr] four_operators)"
  "get_header unreachable_env tr scope = Ok (PDict [(PStr ''Authorization'', PStr ''Bearer t'')])"
  "requests_put unreachable_env tr url hdr b = OtherException"
  by (simp_all add: unreachable_env_def busy_env_def)

lemma lookalike_env_sel [simp]:
  "control_authorization lookalike_env = Some ''secret''"
  "uss_baseurl lookalike_env = ''http://uss-a.example''"
  "uvr_scope lookalike_env = ''uvr.scope''"
  "upsert_uvr lookalike_env tr uvr =
     Ok (example_snapshot [uvr] [example_operator ''uss-b'' ''http://uss-a.example.org'' ''ALL''])"
  "get_header lookalike_env tr scope = Ok (PDict [(PStr ''Authorization'', PStr ''Bearer t'')])"
  "requests_put lookalike_env tr url hdr b = Ok ok_response"
  by (simp_all add: lookalike_env_def)

lemma forgetful_env_sel [simp]:
  "control_authorization forgetful_env = Some ''secret''"
  "uss_baseurl forgetful_env = ''http://uss-a.example''"
  "upsert_uvr forgetful_env tr uvr = Ok (example_snapshot [] four_operators)"
  by (simp_all add: forgetful_env_def)

lemma example_snapshot_sel [simp]:
  "py_getitem (example_snapshot us os) ''data'' =
     Inr (PDict [(PStr ''uvrs'', PList us), (PStr ''operators'', PList os)])"
  by (simp add: example_snapshot_def)

lemma example_uvr_id [simp]: "py_getitem (example_uvr mid) ''message_id'' = Inr (PStr mid)"
  by (simp add: example_uvr_def)

lemma example_operator_sel [simp]:
  "py_getitem (example_operator n b l) ''uss'' = Inr (PStr n)"
  "py_getitem (example_operator n b l) ''uss_baseurl'' = Inr (PStr b)"
  "py_getitem (example_operator n b l) ''announcement_level'' = Inr (PStr l)"
  by (simp_all add: example_operator_def)

lemma suffix_single: "suffix [c] p \<longleftrightarrow> p \<noteq> [] \<and> last p = c"
  by (cases p rule: rev_cases) (auto simp: suffix_def)

lemma area_env_sel [simp]:
  "control_authorization area_env = Some ''secret''"
  "get_operators_by_area area_env tr area =
     Ok (PList [], PList [example_uvr ''m7'', example_uvr ''m1''], PList [])"
  "remove_uvr area_env tr uvr = Ok ()"
  by (simp_all add: area_env_def)

lemma stubborn_env_sel [simp]:
  "control_authorization stubborn_env = Some ''secret''"
  "get_operators_by_area stubborn_env tr area =
     Ok (PList [], PList [example_uvr ''m7'', example_uvr ''m1''], PList [])"
  "remove_uvr stubborn_env tr uvr = HTTPError 404 ''no such UVR'' ''404 Client Error: Not Found''"
  by (simp_all add: stubborn_env_def)

lemma example_request_area [simp]: "request_area (example_geo_uvr mid) = Inr example_area"
  by (simp add: request_area_def example_geo_uvr_def example_area_def coord_def)

lemma registry_state_sel [simp]:
  "operations registry_state = [(PStr ''g1'', example_operation ''g1'')]"
  "uvrs registry_state = [(PStr ''m1'', example_uvr ''m1'')]"
  "notification_logs registry_state = []"
  "always_listen registry_state = [''10/1/2'']"
  "calls registry_state = []"
  by (simp_all add: registry_state_def)

section \<open>The notification log: what is recorded\<close>

lemma log_request_body_dict:
  "rjson req = PDict kvs \<Longrightarrow>
   log_request_body env req key src act s =
     (Inr \<lparr>received = now_isoformat env, source = src, content = PDict kvs,
           uss = (case map_of kvs (PStr ''uss_name'') of None \<Rightarrow> PStr ''???'' | Some v \<Rightarrow> v),
           action = (if py_truthy act then Some act else None)\<rparr>,
      s\<lparr>notification_logs :=
          AList.update key
            ((case map_of (notification_logs s) key of None \<Rightarrow> [] | Some h \<Rightarrow> h)
             @ [\<lparr>received = now_isoformat env, source = src, content = PDict kvs,
                  uss = (case map_of kvs (PStr ''uss_name'') of None \<Rightarrow> PStr ''???'' | Some v \<Rightarrow> v),
                  action = (if py_truthy act then Some act else None)\<rparr>])
            (notification_logs s)\<rparr>)"
  by (simp add: log_request_body_def Let_def split: option.splits)

lemma log_request_body_not_dict:
  "\<forall>kvs. rjson req \<noteq> PDict kvs \<Longrightarrow> log_request_body env req key src act s = (Inl AttributeError, s)"
  by (cases "rjson req") (simp_all add: log_request_body_def)

text \<open>
  C6 (as amended). Whenever the body of an inbound protocol message is a JSON object,
  \<open>_log_request_body\<close> records an entry: it is the last entry stored under the key, and
  its \<open>uss\<close> is the body's \<open>uss_name\<close> when the body has that field and the string
  \<open>???\<close> when it has not.
\<close>

theorem recorded_uss:
  assumes "rjson req = PDict kvs"
  shows "\<exists>e. fst (log_request_body env req key src act s) = Inr e
           \<and> uss e = (case map_of kvs (PStr ''uss_name'') of Some v \<Rightarrow> v | None \<Rightarrow> PStr ''???'')
           \<and> map_of (notification_logs (snd (log_request_body env req key src act s))) key
               = Some ((case map_of (notification_logs s) key of None \<Rightarrow> [] | Some h \<Rightarrow> h) @ [e])"
  using assms
  by (auto simp: log_request_body_def Let_def update_conv' split: option.splits)

theorem recorded_uss_witness:
  "\<exists>e. fst (log_request_body example_env
              (token_request ''valid'' ''PUT'' (PDict [(PStr ''uss_name'', PStr ''uss-b'')]))
              ''m1'' ''uvrs'' PNone empty_state) = Inr e
     \<and> uss e = PStr ''uss-b''
     \<and> map_of (notification_logs (snd (log_request_body example_env
              (token_request ''valid'' ''PUT'' (PDict [(PStr ''uss_name'', PStr ''uss-b'')]))
              ''m1'' ''uvrs'' PNone empty_state))) ''m1'' = Some [e]"
  using recorded_uss [of "token_request ''valid'' ''PUT'' (PDict [(PStr ''uss_name'', PStr ''uss-b'')])"
      "[(PStr ''uss_name'', PStr ''uss-b'')]" example_env "''m1''" "''uvrs''" PNone empty_state]
  by simp

text \<open>
  A body without \<open>uss_name\<close>, put to \<open>/uvrs/m1\<close> with a valid token, is recorded with
  \<open>???\<close>, which is not the string \<open>unknown\<close>.
\<close>

theorem recorded_uss_counterexample:
  "map_of (notification_logs (snd (uvrs_endpoint example_env
        (token_request ''valid'' ''PUT'' (PDict [])) ''m1'' empty_state))) ''m1''
     = Some [\<lparr>received = ''2019-06-01T12:00:00'', source = ''uvrs'', content = PDict [],
              uss = PStr ''???'', action = None\<rparr>]
   \<and> PStr ''???'' \<noteq> PStr ''unknown''"
  by (simp add: uvrs_endpoint_def log_only_def log_request_body_dict)

section \<open>Clearing the notification log\<close>

lemma is_dict_iff: "is_dict v \<longleftrightarrow> (\<exists>kvs. v = PDict kvs)"
  by (cases v) simp_all

lemma record_calls_one_key:
  "\<forall>c \<in> set rs. is_dict (rjson (fst (snd c))) \<Longrightarrow> notification_logs s = [(key, es)] \<Longrightarrow>
   \<exists>es'. notification_logs (record_calls key rs s) = [(key, es')] \<and> length es' = length es + length rs"
proof (induction rs arbitrary: s es)
  case Nil
  then show ?case by simp
next
  case (Cons c rs)
  obtain env req src act where c: "c = (env, req, src, act)" by (cases c) auto
  from Cons.prems(1) c obtain kvs where d: "rjson req = PDict kvs" by (auto simp: is_dict_iff)
  let ?s1 = "snd (log_request_body env req key src act s)"
  from d Cons.prems(2) obtain e where "notification_logs ?s1 = [(key, es @ [e])]"
    by (simp add: log_request_body_dict)
  with Cons.IH [of ?s1 "es @ [e]"] Cons.prems(1) c show ?case by auto
qed

lemma record_calls_from_empty:
  assumes "\<forall>c \<in> set rs. is_dict (rjson (fst (snd c)))" "notification_logs s = []" "rs \<noteq> []"
  shows "\<exists>es. notification_logs (record_calls key rs s) = [(key, es)] \<and> length es = length rs"
proof -
  from assms(3) obtain c rs' where rs: "rs = c # rs'" by (cases rs) auto
  obtain env req src act where c: "c = (env, req, src, act)" by (cases c) auto
  from assms(1) rs c obtain kvs where d: "rjson req = PDict kvs" by (auto simp: is_dict_iff)
  let ?s1 = "snd (log_request_body env req key src act s)"
  from d assms(2) obtain e where "notification_logs ?s1 = [(key, [e])]"
    by (simp add: log_request_body_dict)
  from record_calls_one_key [OF _ this, of rs'] assms(1) rs c show ?thesis by auto
qed

lemma del_notifications_delete:
  "validate_control env req = None \<Longrightarrow> rmethod req = ''DELETE'' \<Longrightarrow>
   del_notifications env req s =
     (Returned (Text (''Deleted '' @ str_of_nat (length (notification_logs s)) @ '' notification keys'')) 200,
      s\<lparr>notification_logs := []\<rparr>)"
  by (simp add: del_notifications_def Let_def)

lemma uvr_notice_dict: "is_dict (rjson (fst (snd uvr_notice)))"
  by (simp add: uvr_notice_def example_uvr_def)

text \<open>
  C7 (as amended). With the control credential, \<open>DELETE /notifications\<close> empties the
  whole log and answers \<open>Deleted n notification keys\<close>, where \<open>n\<close> is the number of
  keys the log held, not the number of entries. After \<open>N\<close> record calls under one key
  on an empty log the log holds \<open>N\<close> entries, and clearing it reports 1 when \<open>N\<close> is
  positive (0 when \<open>N\<close> is 0) and leaves the log empty.
\<close>

theorem clear_reports_keys:
  assumes "validate_control env req = None" and "rmethod req = ''DELETE''"
    and "\<forall>c \<in> set rs. is_dict (rjson (fst (snd c)))" and "notification_logs s0 = []"
  shows "del_notifications env req s =
           (Returned (Text (''Deleted '' @ str_of_nat (length (notification_logs s))
                            @ '' notification keys'')) 200,
            s\<lparr>notification_logs := []\<rparr>)
       \<and> length (concat (map snd (notification_logs (record_calls key rs s0)))) = length rs
       \<and> del_notifications env req (record_calls key rs s0) =
           (Returned (Text (''Deleted '' @ str_of_nat (if rs = [] then 0 else 1)
                            @ '' notification keys'')) 200,
            (record_calls key rs s0)\<lparr>notification_logs := []\<rparr>)"
proof (cases "rs = []")
  case True
  with assms show ?thesis by (simp add: del_notifications_delete)
next
  case False
  from record_calls_from_empty [OF assms(3) assms(4) False, of key]
  obtain es where "notification_logs (record_calls key rs s0) = [(key, es)]" "length es = length rs"
    by blast
  with assms(1,2) False show ?thesis by (simp add: del_notifications_delete)
qed

theorem clear_reports_keys_witness:
  "del_notifications example_env (control_request ''DELETE'' PNone) empty_state =
     (Returned (Text ''Deleted 0 notification keys'') 200, empty_state)
   \<and> length (concat (map snd (notification_logs (record_calls ''m1'' [uvr_notice, uvr_notice, uvr_notice] empty_state)))) = 3
   \<and> fst (del_notifications example_env (control_request ''DELETE'' PNone)
         (record_calls ''m1'' [uvr_notice, uvr_notice, uvr_notice] empty_state)) =
     Returned (Text ''Deleted 1 notification keys'') 200
   \<and> notification_logs (snd (del_notifications example_env (control_request ''DELETE'' PNone)
         (record_calls ''m1'' [uvr_notice, uvr_notice, uvr_notice] empty_state))) = []"
proof -
  have d: "\<forall>c \<in> set [uvr_notice, uvr_notice, uvr_notice]. is_dict (rjson (fst (snd c)))"
    by (simp add: uvr_notice_dict)
  from clear_reports_keys [OF example_control_valid _ d, of "''DELETE''" PNone empty_state empty_state "''m1''"]
  show ?thesis by (simp add: str_of_nat.simps digit_char_def empty_state_def)
qed

text \<open>
  Two records under the key \<open>m1\<close>: the log holds two entries under one key, and the
  clear reports 1, not 2.
\<close>

theorem clear_reports_keys_counterexample:
  "map (length \<circ> snd) (notification_logs (record_calls ''m1'' [uvr_notice, uvr_notice] empty_state)) = [2]
   \<and> fst (del_notifications example_env (control_request ''DELETE'' PNone)
         (record_calls ''m1'' [uvr_notice, uvr_notice] empty_state)) =
     Returned (Text ''Deleted 1 notification keys'') 200
   \<and> notification_logs (snd (del_notifications example_env (control_request ''DELETE'' PNone)
         (record_calls ''m1'' [uvr_notice, uvr_notice] empty_state))) = []"
  by (simp add: uvr_notice_def example_uvr_def log_request_body_dict del_notifications_delete str_of_nat.simps digit_char_def)

section \<open>The access gate: tokens\<close>


lemma token_gated_dispatch:
  "token_gated r \<Longrightarrow> validate_access_token env req None = Some out \<Longrightarrow> dispatch env r req s = (out, s)"
  by (cases r)
     (simp_all add: uvrs_endpoint_def utm_messages_endpoint_def uss_instances_endpoint_def
        negotiations_endpoint_def positions_endpoint_def get_operations_endpoint_def
        operation_endpoint_def enhanced_operation_endpoint_def)

lemma validate_access_token_expired:
  "access_token req = Some token \<Longrightarrow> jwt_decode env token (public_key env) = ExpiredSignatureError \<Longrightarrow>
   validate_access_token env req scopes = Some (Aborted 401 (Some ''Access token is invalid: token has expired.''))"
  by (simp add: validate_access_token_def)

lemma validate_access_token_undecodable:
  "access_token req = Some token \<Longrightarrow> jwt_decode env token (public_key env) = DecodeError \<Longrightarrow>
   validate_access_token env req scopes = Some (Aborted 400 (Some ''Access token is invalid: token cannot be decoded.''))"
  by (simp add: validate_access_token_def)

lemma validate_access_token_accepted:
  "access_token req = Some token \<Longrightarrow> jwt_decode env token (public_key env) = Claims claims \<Longrightarrow>
   validate_access_token env req None = None"
  by (simp add: validate_access_token_def)

lemma validate_access_token_uncaught:
  "access_token req = Some token \<Longrightarrow> jwt_decode env token (public_key env) = InvalidTokenError \<Longrightarrow>
   validate_access_token env req scopes = Some (Raised ExternalException)"
  by (simp add: validate_access_token_def)

lemma log_request_body_jwt:
  "log_request_body (env\<lparr>jwt_decode := f\<rparr>) req key src act s = log_request_body env req key src act s"
  by (cases "py_get (rjson req) ''uss_name'' (PStr ''???'')") (simp_all add: log_request_body_def)

lemma log_only_jwt:
  "log_only (env\<lparr>jwt_decode := f\<rparr>) req key src s = log_only env req key src s"
  by (simp add: log_only_def log_request_body_jwt)

lemma log_with_action_jwt:
  "log_with_action (env\<lparr>jwt_decode := f\<rparr>) req key src fld s = log_with_action env req key src fld s"
  by (cases "py_get (rjson req) fld (PStr ''???'')") (simp_all add: log_with_action_def log_request_body_jwt)

lemma log_only_outcome:
  "fst (log_only env req key src s) = Returned (Text []) 204 \<or> (\<exists>e. fst (log_only env req key src s) = Raised e)"
  by (auto simp: log_only_def split: prod.splits sum.splits)

lemma log_with_action_outcome:
  "fst (log_with_action env req key src f s) = Returned (Text []) 204
   \<or> (\<exists>e. fst (log_with_action env req key src f s) = Raised e)"
  by (auto simp: log_with_action_def split: prod.splits sum.splits option.splits)

lemma accepted_not_refused:
  assumes "token_gated r" and v: "validate_access_token env req None = None"
  shows "fst (dispatch env r req s) \<noteq> Aborted 400 m \<and> fst (dispatch env r req s) \<noteq> Aborted 401 m
       \<and> fst (dispatch env r req s) \<noteq> Aborted 403 m"
proof (cases r)
  case (Uvrs x)
  with v log_only_outcome [of env req x "''uvrs''" s] show ?thesis
    by (auto simp: uvrs_endpoint_def)
next
  case (Utm_messages x)
  with v log_with_action_outcome [of env req x "''utm_messages''" "''message_type''" s] show ?thesis
    by (auto simp: utm_messages_endpoint_def)
next
  case (Uss x)
  with v log_only_outcome [of env req x "''uss''" s] show ?thesis
    by (auto simp: uss_instances_endpoint_def)
next
  case (Negotiations x)
  with v log_only_outcome [of env req x "''negotiations''" s] show ?thesis
    by (auto simp: negotiations_endpoint_def)
next
  case (Positions x)
  with v log_only_outcome [of env req x "''positions''" s] show ?thesis
    by (auto simp: positions_endpoint_def)
next
  case Operations
  with v show ?thesis by (simp add: get_operations_endpoint_def)
next
  case (Operations_gufi x)
  with v log_with_action_outcome [of env req x "''operations''" "''state''" s] show ?thesis
    by (auto simp: operation_endpoint_def split: option.splits)
next
  case (Enhanced_operations x)
  with v log_only_outcome [of env req x "''enhanced_operations''" s] show ?thesis
    by (auto simp: enhanced_operation_endpoint_def)
qed (use assms(1) in simp_all)

lemma accepted_whatever_claims:
  assumes "token_gated r" and "access_token req = Some token"
    and "jwt_decode env token (public_key env) = Claims claims"
  shows "dispatch (env\<lparr>jwt_decode := (\<lambda>t k. Claims claims')\<rparr>) r req s = dispatch env r req s"
proof -
  let ?env' = "env\<lparr>jwt_decode := (\<lambda>t k. Claims claims')\<rparr>"
  have v: "validate_access_token env req None = None"
    using assms(2,3) by (rule validate_access_token_accepted)
  have v': "validate_access_token ?env' req None = None"
    using assms(2) by (simp add: validate_access_token_def)
  show ?thesis
    using assms(1) v v'
    by (cases r)
       (simp_all add: uvrs_endpoint_def utm_messages_endpoint_def uss_instances_endpoint_def
          negotiations_endpoint_def positions_endpoint_def get_operations_endpoint_def
          operation_endpoint_def enhanced_operation_endpoint_def
          log_only_jwt log_with_action_jwt)
qed

lemma access_token_immature: "access_token (token_request ''immature'' m b) = Some ''immature''"
  by (simp add: access_token_def token_request_def py_replace.simps)

lemma example_jwt_samples [simp]:
  "example_jwt ''valid'' ''-----BEGIN PUBLIC KEY-----'' =
     Claims (PDict [(PStr ''scope'', PList [PStr ''other.scope''])])"
  "example_jwt ''expired'' ''-----BEGIN PUBLIC KEY-----'' = ExpiredSignatureError"
  "example_jwt ''immature'' ''-----BEGIN PUBLIC KEY-----'' = InvalidTokenError"
  "example_jwt ''garbage'' ''-----BEGIN PUBLIC KEY-----'' = DecodeError"
  by (simp_all add: example_jwt_def library_decode_def example_token_def)

text \<open>
  C4 (as amended). On every token-gated endpoint the validation of a presented token
  tells these outcomes apart. A token the library reports as expired ends the request
  with \<open>abort(401)\<close> and the expiry message; a token it cannot decode ends it with
  \<open>abort(400)\<close>, not 401; in both cases nothing is changed. A token it decodes is
  accepted whatever its claims, and so whatever its scopes, since these endpoints
  require no scope set: validation passes, the answer is none of 400, 401 and 403, and
  it is the same for any other claims (the operations list, for one, is served). A
  token for which the library raises any other exception is not accepted: the exception
  is not caught and ends the request, nothing changed.
\<close>

theorem access_token_outcomes:
  assumes "access_token req = Some token" and "token_gated r"
  shows "(jwt_decode env token (public_key env) = ExpiredSignatureError \<longrightarrow>
            dispatch env r req s =
              (Aborted 401 (Some ''Access token is invalid: token has expired.''), s))
       \<and> (jwt_decode env token (public_key env) = DecodeError \<longrightarrow>
            dispatch env r req s =
              (Aborted 400 (Some ''Access token is invalid: token cannot be decoded.''), s))
       \<and> (jwt_decode env token (public_key env) = Claims claims \<longrightarrow>
            validate_access_token env req None = None
            \<and> (\<forall>m. fst (dispatch env r req s) \<noteq> Aborted 400 m
                   \<and> fst (dispatch env r req s) \<noteq> Aborted 401 m
                   \<and> fst (dispatch env r req s) \<noteq> Aborted 403 m)
            \<and> (\<forall>claims'. dispatch (env\<lparr>jwt_decode := (\<lambda>t k. Claims claims')\<rparr>) r req s =
                            dispatch env r req s)
            \<and> dispatch env Operations req s = (Returned (Jsonify (PList (map snd (operations s)))) 200, s))
       \<and> (jwt_decode env token (public_key env) = InvalidTokenError \<longrightarrow>
            dispatch env r req s = (Raised ExternalException, s))"
proof (intro conjI impI allI)
  assume "jwt_decode env token (public_key env) = ExpiredSignatureError"
  with assms show "dispatch env r req s =
      (Aborted 401 (Some ''Access token is invalid: token has expired.''), s)"
    by (simp add: token_gated_dispatch validate_access_token_expired)
next
  assume "jwt_decode env token (public_key env) = DecodeError"
  with assms show "dispatch env r req s =
      (Aborted 400 (Some ''Access token is invalid: token cannot be decoded.''), s)"
    by (simp add: token_gated_dispatch validate_access_token_undecodable)
next
  assume "jwt_decode env token (public_key env) = InvalidTokenError"
  with assms show "dispatch env r req s = (Raised ExternalException, s)"
    by (simp add: token_gated_dispatch validate_access_token_uncaught)
next
  assume c: "jwt_decode env token (public_key env) = Claims claims"
  from assms(1) c show v: "validate_access_token env req None = None"
    by (rule validate_access_token_accepted)
  from v show "dispatch env Operations req s = (Returned (Jsonify (PList (map snd (operations s)))) 200, s)"
    by (simp add: get_operations_endpoint_def)
  fix m
  from accepted_not_refused [OF assms(2) v, of s m]
  show "fst (dispatch env r req s) \<noteq> Aborted 400 m" "fst (dispatch env r req s) \<noteq> Aborted 401 m"
    "fst (dispatch env r req s) \<noteq> Aborted 403 m" by simp_all
next
  fix claims'
  assume c: "jwt_decode env token (public_key env) = Claims claims"
  from accepted_whatever_claims [OF assms(2) assms(1) c]
  show "dispatch (env\<lparr>jwt_decode := (\<lambda>t k. Claims claims')\<rparr>) r req s = dispatch env r req s" .
qed

theorem access_token_outcomes_witness:
  "dispatch example_env (Uvrs ''m1'') (token_request ''expired'' ''PUT'' (example_uvr ''m1'')) empty_state =
     (Aborted 401 (Some ''Access token is invalid: token has expired.''), empty_state)
   \<and> dispatch example_env (Uvrs ''m1'') (token_request ''garbage'' ''PUT'' (example_uvr ''m1'')) empty_state =
     (Aborted 400 (Some ''Access token is invalid: token cannot be decoded.''), empty_state)
   \<and> validate_access_token example_env (token_request ''valid'' ''GET'' PNone) None = None
   \<and> dispatch example_env Operations (token_request ''valid'' ''GET'' PNone) empty_state =
     (Returned (Jsonify (PList [])) 200, empty_state)
   \<and> dispatch example_env (Uvrs ''m1'') (token_request ''valid'' ''PUT'' (example_uvr ''m1'')) empty_state =
     (Returned (Text []) 204,
      empty_state\<lparr>notification_logs :=
        [(''m1'', [\<lparr>received = ''2019-06-01T12:00:00'', source = ''uvrs'', content = example_uvr ''m1'',
                    uss = PStr ''uss-a'', action = None\<rparr>])]\<rparr>)
   \<and> dispatch example_env (Uvrs ''m1'') (token_request ''immature'' ''PUT'' (example_uvr ''m1'')) empty_state =
     (Raised ExternalException, empty_state)"
proof -
  have e: "jwt_decode example_env ''expired'' (public_key example_env) = ExpiredSignatureError"
    and g: "jwt_decode example_env ''garbage'' (public_key example_env) = DecodeError"
    and v: "jwt_decode example_env ''valid'' (public_key example_env) =
              Claims (PDict [(PStr ''scope'', PList [PStr ''other.scope''])])"
    and i: "jwt_decode example_env ''immature'' (public_key example_env) = InvalidTokenError"
    by simp_all
  from access_token_outcomes [OF access_token_expired [of "''PUT''" "example_uvr ''m1''"],
      where r = "Uvrs ''m1''" and env = example_env and s = empty_state] e
  have r1: "dispatch example_env (Uvrs ''m1'') (token_request ''expired'' ''PUT'' (example_uvr ''m1''))
      empty_state = (Aborted 401 (Some ''Access token is invalid: token has expired.''), empty_state)"
    by simp
  from access_token_outcomes [OF access_token_garbage [of "''PUT''" "example_uvr ''m1''"],
      where r = "Uvrs ''m1''" and env = example_env and s = empty_state] g
  have r2: "dispatch example_env (Uvrs ''m1'') (token_request ''garbage'' ''PUT'' (example_uvr ''m1''))
      empty_state = (Aborted 400 (Some ''Access token is invalid: token cannot be decoded.''), empty_state)"
    by simp
  from access_token_outcomes [OF access_token_valid [of "''GET''" PNone],
      where r = Operations and env = example_env and s = empty_state
        and claims = "PDict [(PStr ''scope'', PList [PStr ''other.scope''])]"] v
  have r3: "validate_access_token example_env (token_request ''valid'' ''GET'' PNone) None = None"
    "dispatch example_env Operations (token_request ''valid'' ''GET'' PNone) empty_state =
       (Returned (Jsonify (PList [])) 200, empty_state)"
    by simp_all
  from access_token_outcomes [OF access_token_immature [of "''PUT''" "example_uvr ''m1''"],
      where r = "Uvrs ''m1''" and env = example_env and s = empty_state] i
  have r4: "dispatch example_env (Uvrs ''m1'') (token_request ''immature'' ''PUT'' (example_uvr ''m1''))
      empty_state = (Raised ExternalException, empty_state)"
    by simp
  have r5: "dispatch example_env (Uvrs ''m1'') (token_request ''valid'' ''PUT'' (example_uvr ''m1''))
      empty_state =
     (Returned (Text []) 204,
      empty_state\<lparr>notification_logs :=
        [(''m1'', [\<lparr>received = ''2019-06-01T12:00:00'', source = ''uvrs'', content = example_uvr ''m1'',
                    uss = PStr ''uss-a'', action = None\<rparr>])]\<rparr>)"
    by (simp add: uvrs_endpoint_def log_only_def log_request_body_dict example_uvr_def)
  from r1 r2 r3 r4 r5 show ?thesis by simp
qed

text \<open>
  The token \<open>immature\<close> is well formed, signed for the configured key and an hour
  from its expiry, but five minutes from its \<open>nbf\<close>: put to \<open>/uvrs/m1\<close> it is not
  accepted, the library's exception escaping the handler.
\<close>

theorem access_token_outcomes_counterexample:
  "well_formed (example_token ''immature'')
   \<and> signed_for (example_token ''immature'') = public_key example_env
   \<and> 0 < seconds_to_exp (example_token ''immature'')
   \<and> dispatch example_env (Uvrs ''m1'') (token_request ''immature'' ''PUT'' (example_uvr ''m1'')) empty_state =
     (Raised ExternalException, empty_state)"
  by (simp add: example_token_def uvrs_endpoint_def validate_access_token_def access_token_immature)

section \<open>The access gate: the control credential\<close>

lemma validate_control_missing:
  "headers req ''Authorization'' = None \<Longrightarrow>
   validate_control env req = Some (Aborted 401 (Some ''Authorization header was not included in request''))"
  by (simp add: validate_control_def)

lemma validate_control_wrong:
  "headers req ''Authorization'' = Some h \<Longrightarrow> Some h \<noteq> control_authorization env \<Longrightarrow>
   validate_control env req = Some (Aborted 403 (Some ''Not authorized to access this control endpoint''))"
  by (simp add: validate_control_def)

lemma control_checked_dispatch:
  "control_checked r (rmethod req) \<Longrightarrow> validate_control env req = Some out \<Longrightarrow> dispatch env r req s = (out, s)"
  by (cases r)
     (auto simp: alwayslisten_endpoint_def operator_entries_endpoint_def client_operation_endpoint_def
        client_uvr_endpoint_def get_notifications_def del_notifications_def)

lemma unchecked_ignores_headers:
  "\<not> control_checked r (rmethod req) \<Longrightarrow> \<not> token_gated r \<Longrightarrow>
   dispatch env r (req\<lparr>headers := hs\<rparr>) s = dispatch env r req s"
  by (cases r)
     (auto simp: status_endpoint_def alwayslisten_endpoint_def client_operation_endpoint_def
        client_uvr_endpoint_def)

text \<open>
  C5 (as amended). The handlers that check the control credential are the always-listen
  PUT, the bulk operator-entry deletion, the operation PUT and DELETE, the UVR PUT and
  DELETE, the notification log get by key and the notification log bulk get and delete:
  each rejects a request without the header with \<open>abort(401)\<close> and one with another
  value with \<open>abort(403)\<close>, before doing anything. The status query and the GET of
  the always-listen list, of an operation and of a UVR perform no credential check:
  their answer does not depend on the request headers.
\<close>

theorem control_gate:
  "(control_checked r (rmethod req) \<longrightarrow>
      (headers req ''Authorization'' = None \<longrightarrow>
         dispatch env r req s =
           (Aborted 401 (Some ''Authorization header was not included in request''), s))
    \<and> (\<forall>h. headers req ''Authorization'' = Some h \<and> Some h \<noteq> control_authorization env \<longrightarrow>
         dispatch env r req s =
           (Aborted 403 (Some ''Not authorized to access this control endpoint''), s)))
   \<and> (\<not> control_checked r (rmethod req) \<and> \<not> token_gated r \<longrightarrow>
         dispatch env r (req\<lparr>headers := hs\<rparr>) s = dispatch env r req s)"
  by (auto simp: control_checked_dispatch validate_control_missing validate_control_wrong
      unchecked_ignores_headers)

theorem control_gate_witness:
  "dispatch example_env (Client_uvr ''m1'') (anonymous_request ''DELETE'' PNone) registry_state =
     (Aborted 401 (Some ''Authorization header was not included in request''), registry_state)
   \<and> dispatch example_env (Client_uvr ''m1'') (token_request ''valid'' ''DELETE'' PNone) registry_state =
     (Aborted 403 (Some ''Not authorized to access this control endpoint''), registry_state)
   \<and> dispatch example_env Status ((anonymous_request ''GET'' PNone)\<lparr>headers := [''Authorization'' \<mapsto> ''secret'']\<rparr>) registry_state =
     dispatch example_env Status (anonymous_request ''GET'' PNone) registry_state"
  using control_gate [where r = "Client_uvr ''m1''" and req = "anonymous_request ''DELETE'' PNone"
      and env = example_env and s = registry_state]
    control_gate [where r = "Client_uvr ''m1''" and req = "token_request ''valid'' ''DELETE'' PNone"
      and env = example_env and s = registry_state]
    control_gate [where r = Status and req = "anonymous_request ''GET'' PNone" and env = example_env
      and hs = "[''Authorization'' \<mapsto> ''secret'']" and s = registry_state]
  by (simp add: token_request_def)

text \<open>
  Without any credential, \<open>GET /client/operation/g1\<close> returns the operation and
  \<open>GET /status\<close> the list of GUFIs.
\<close>

theorem control_gate_counterexample:
  "dispatch example_env (Client_operation ''g1'') (anonymous_request ''GET'' PNone) registry_state =
     (Returned (Jsonify (example_operation ''g1'')) 200, registry_state)
   \<and> dispatch example_env Status (anonymous_request ''GET'' PNone) registry_state =
     (Returned (Jsonify (PDict [(PStr ''status'', PStr ''success''),
                                (PStr ''operations'', PList [PStr ''g1'']),
                                (PStr ''uss_baseurl'', PStr ''http://uss-a.example'')])) 200,
      registry_state)"
  by (simp add: client_operation_endpoint_def status_endpoint_def registry_state_def)

section \<open>A peer's PUT of an operation\<close>







section \<open>The grid sync of the operation registry\<close>

text \<open>
  What one call of \<open>_update_operations\<close> leaves in the trace: the operator entry with
  every current operation, then one observer per always-listen cell up to the first
  the grid refuses; and how it can end.
\<close>

lemma flask_abort_not_returned [simp]:
  "flask_abort env code d \<noteq> Returned b n" "Returned b n \<noteq> flask_abort env code d"
  by (simp_all add: flask_abort_def)

lemma insert_observers_trace:
  "insert_observers env cells s = (r, s') \<Longrightarrow>
   \<exists>n\<le>length cells.
     s' = s\<lparr>calls := calls s @ map (\<lambda>c. Insert_observer c (min_listen_time env) (max_listen_time env))
                                   (take n cells)\<rparr>
     \<and> (r = None \<longrightarrow> n = length cells)"
proof (induction cells arbitrary: s)
  case Nil
  then show ?case by simp
next
  case (Cons c cells)
  let ?s1 = "s\<lparr>calls := calls s @ [Insert_observer c (min_listen_time env) (max_listen_time env)]\<rparr>"
  show ?case
  proof (cases "insert_observer env (calls s) c (min_listen_time env) (max_listen_time env)")
    case (Ok u)
    with Cons.prems have "insert_observers env cells ?s1 = (r, s')" by (simp add: Let_def)
    from Cons.IH [OF this] obtain n where n: "n \<le> length cells"
      "s' = ?s1\<lparr>calls := calls ?s1 @ map (\<lambda>c. Insert_observer c (min_listen_time env) (max_listen_time env))
                                   (take n cells)\<rparr>"
      "r = None \<longrightarrow> n = length cells" by blast
    show ?thesis
      by (rule exI [of _ "Suc n"]) (use n in simp)
  next
    case (HTTPError code cont msg)
    with Cons.prems show ?thesis
      by (intro exI [of _ 1]) (auto simp: Let_def)
  next
    case OtherException
    with Cons.prems show ?thesis
      by (intro exI [of _ 1]) (auto simp: Let_def)
  qed
qed

lemma insert_observers_outcome:
  "insert_observers env cells s = (Some out, s') \<Longrightarrow>
   out = Raised ExternalException
   \<or> (\<exists>code cont msg cell tr. cell \<in> set cells
        \<and> insert_observer env tr cell (min_listen_time env) (max_listen_time env) = HTTPError code cont msg
        \<and> out = flask_abort env code (Some (''Error inserting observer Operator into cell '' @ cell @ '': '' @ cont)))"
proof (induction cells arbitrary: s)
  case Nil
  then show ?case by simp
next
  case (Cons c cells)
  show ?case
  proof (cases "insert_observer env (calls s) c (min_listen_time env) (max_listen_time env)")
    case (Ok u)
    with Cons.prems Cons.IH show ?thesis by (fastforce simp: Let_def)
  next
    case (HTTPError code cont msg)
    with Cons.prems show ?thesis by (fastforce simp: Let_def)
  next
    case OtherException
    with Cons.prems show ?thesis by (simp add: Let_def)
  qed
qed

lemma update_operations_rejected:
  "upsert_operator env (calls s) (map snd (operations s)) (min_listen_time env) (max_listen_time env)
     = HTTPError code cont msg \<Longrightarrow>
   update_operations env s =
     (Some (flask_abort env code (Some (''Error updating InterUSS Platform Operator entry: '' @ cont))),
      s\<lparr>calls := calls s @ [Upsert_operator (map snd (operations s)) (min_listen_time env) (max_listen_time env)]\<rparr>)"
  by (simp add: update_operations_def Let_def)

lemma update_operations_trace:
  assumes "update_operations env s = (r, s')"
  shows "\<exists>n\<le>length (always_listen s).
     s' = s\<lparr>calls := calls s @
               Upsert_operator (map snd (operations s)) (min_listen_time env) (max_listen_time env)
               # map (\<lambda>c. Insert_observer c (min_listen_time env) (max_listen_time env))
                   (take n (always_listen s))\<rparr>
     \<and> (r = None \<longrightarrow> n = length (always_listen s))"
proof (cases "upsert_operator env (calls s) (map snd (operations s)) (min_listen_time env) (max_listen_time env)")
  case (Ok u)
  let ?s1 = "s\<lparr>calls := calls s @ [Upsert_operator (map snd (operations s)) (min_listen_time env) (max_listen_time env)]\<rparr>"
  from Ok assms have "insert_observers env (always_listen s) ?s1 = (r, s')"
    by (simp add: update_operations_def Let_def)
  from insert_observers_trace [OF this] show ?thesis by auto
next
  case (HTTPError code cont msg)
  with assms show ?thesis
    by (intro exI [of _ 0]) (auto simp: update_operations_def Let_def)
next
  case OtherException
  with assms show ?thesis
    by (intro exI [of _ 0]) (auto simp: update_operations_def Let_def)
qed

lemma update_operations_outcome:
  assumes "update_operations env s = (Some out, s')"
  shows "out = Raised ExternalException
   \<or> (\<exists>code cont msg.
         upsert_operator env (calls s) (map snd (operations s)) (min_listen_time env) (max_listen_time env)
           = HTTPError code cont msg
         \<and> out = flask_abort env code (Some (''Error updating InterUSS Platform Operator entry: '' @ cont)))
   \<or> (\<exists>code cont msg cell tr. cell \<in> set (always_listen s)
        \<and> insert_observer env tr cell (min_listen_time env) (max_listen_time env) = HTTPError code cont msg
        \<and> out = flask_abort env code (Some (''Error inserting observer Operator into cell '' @ cell @ '': '' @ cont)))"
proof (cases "upsert_operator env (calls s) (map snd (operations s)) (min_listen_time env) (max_listen_time env)")
  case (Ok u)
  let ?s1 = "s\<lparr>calls := calls s @ [Upsert_operator (map snd (operations s)) (min_listen_time env) (max_listen_time env)]\<rparr>"
  from Ok assms have "insert_observers env (always_listen s) ?s1 = (Some out, s')"
    by (simp add: update_operations_def Let_def)
  from insert_observers_outcome [OF this] show ?thesis by blast
next
  case (HTTPError code cont msg)
  with assms show ?thesis by (auto simp: update_operations_def Let_def)
next
  case OtherException
  with assms show ?thesis by (auto simp: update_operations_def Let_def)
qed

lemma update_operations_success:
  assumes "update_operations env s = (r, s')"
  shows "r = None \<or> (\<exists>out. r = Some out \<and> (\<forall>b c. out \<noteq> Returned b c))"
proof (cases r)
  case None
  then show ?thesis by simp
next
  case (Some out)
  with update_operations_outcome [of env s out s'] assms show ?thesis by auto
qed

text \<open>
  The operation PUT with the control credential and a body carrying a hashable \<open>gufi\<close>:
  the body is in the registry under that GUFI whatever the grid answers, and the sync
  is issued once. When the grid refuses the operator entry, the handler calls
  \<open>flask.abort\<close> with the status of the refusal and nothing follows the one grid call.
\<close>

lemma operation_put_sync:
  assumes ctl: "validate_control env req = None" and put: "rmethod req = ''PUT''"
    and g: "py_getitem (rjson req) ''gufi'' = Inr g" and k: "py_hash_key g = Inr k"
  shows "let ops = AList.update k (rjson req) (operations s);
             lo = min_listen_time env; hi = max_listen_time env;
             (out, s') = client_operation_endpoint env req gufi s
         in map_of (operations s') k = Some (rjson req)
          \<and> (\<exists>n\<le>length (always_listen s).
                s' = s\<lparr>operations := ops,
                        calls := calls s @ Upsert_operator (map snd ops) lo hi
                                 # map (\<lambda>c. Insert_observer c lo hi) (take n (always_listen s))\<rparr>
                \<and> (out = Returned (Jsonify (rjson req)) 200 \<longrightarrow> n = length (always_listen s)))
          \<and> (\<forall>code cont msg.
                upsert_operator env (calls s) (map snd ops) lo hi = HTTPError code cont msg \<longrightarrow>
                out = flask_abort env code (Some (''Error updating InterUSS Platform Operator entry: '' @ cont))
                \<and> calls s' = calls s @ [Upsert_operator (map snd ops) lo hi])
          \<and> (out = Returned (Jsonify (rjson req)) 200
               \<or> out = Raised ExternalException
               \<or> (\<exists>code cont msg.
                     upsert_operator env (calls s) (map snd ops) lo hi = HTTPError code cont msg
                     \<and> out = flask_abort env code (Some (''Error updating InterUSS Platform Operator entry: '' @ cont)))
               \<or> (\<exists>code cont msg cell tr. cell \<in> set (always_listen s)
                     \<and> insert_observer env tr cell lo hi = HTTPError code cont msg
                     \<and> out = flask_abort env code (Some (''Error inserting observer Operator into cell ''
                                                 @ cell @ '': '' @ cont))))"
proof -
  define ops where "ops = AList.update k (rjson req) (operations s)"
  define s0 where "s0 = s\<lparr>operations := ops\<rparr>"
  obtain r s2 where u: "update_operations env s0 = (r, s2)" by (cases "update_operations env s0") auto
  define out where "out = (case r of Some o1 \<Rightarrow> o1 | None \<Rightarrow> Returned (Jsonify (rjson req)) 200)"
  have run: "client_operation_endpoint env req gufi s = (out, s2)"
    using ctl put g k u
    by (simp add: client_operation_endpoint_def dict_set_def ops_def s0_def out_def split: option.splits)
  from update_operations_trace [OF u] obtain n where n: "n \<le> length (always_listen s)"
    "s2 = s\<lparr>operations := ops,
             calls := calls s @ Upsert_operator (map snd ops) (min_listen_time env) (max_listen_time env)
                      # map (\<lambda>c. Insert_observer c (min_listen_time env) (max_listen_time env))
                          (take n (always_listen s))\<rparr>"
    "r = None \<longrightarrow> n = length (always_listen s)"
    by (auto simp: s0_def)
  have kept: "map_of (operations s2) k = Some (rjson req)"
    using n(2) by (simp add: ops_def update_conv')
  have succ: "out = Returned (Jsonify (rjson req)) 200 \<longrightarrow> n = length (always_listen s)"
    using update_operations_success [OF u] n(3) by (auto simp: out_def)
  have rej: "\<forall>code cont msg.
      upsert_operator env (calls s) (map snd ops) (min_listen_time env) (max_listen_time env)
        = HTTPError code cont msg \<longrightarrow>
      out = flask_abort env code (Some (''Error updating InterUSS Platform Operator entry: '' @ cont))
      \<and> calls s2 = calls s @ [Upsert_operator (map snd ops) (min_listen_time env) (max_listen_time env)]"
  proof (intro allI impI)
    fix code cont msg
    assume "upsert_operator env (calls s) (map snd ops) (min_listen_time env) (max_listen_time env)
        = HTTPError code cont msg"
    then have "upsert_operator env (calls s0) (map snd (operations s0)) (min_listen_time env) (max_listen_time env)
        = HTTPError code cont msg" by (simp add: s0_def)
    from update_operations_rejected [OF this] u
    show "out = flask_abort env code (Some (''Error updating InterUSS Platform Operator entry: '' @ cont))
      \<and> calls s2 = calls s @ [Upsert_operator (map snd ops) (min_listen_time env) (max_listen_time env)]"
      by (auto simp: out_def s0_def)
  qed
  have cases: "out = Returned (Jsonify (rjson req)) 200
       \<or> out = Raised ExternalException
       \<or> (\<exists>code cont msg.
             upsert_operator env (calls s) (map snd ops) (min_listen_time env) (max_listen_time env)
               = HTTPError code cont msg
             \<and> out = flask_abort env code (Some (''Error updating InterUSS Platform Operator entry: '' @ cont)))
       \<or> (\<exists>code cont msg cell tr. cell \<in> set (always_listen s)
             \<and> insert_observer env tr cell (min_listen_time env) (max_listen_time env) = HTTPError code cont msg
             \<and> out = flask_abort env code (Some (''Error inserting observer Operator into cell ''
                                         @ cell @ '': '' @ cont)))"
  proof (cases r)
    case None
    then show ?thesis by (simp add: out_def)
  next
    case (Some o1)
    with u have "update_operations env s0 = (Some out, s2)" by (simp add: out_def)
    from update_operations_outcome [OF this] show ?thesis by (simp add: s0_def)
  qed
  show ?thesis
    unfolding Let_def run ops_def [symmetric]
    using kept n(1,2) succ rej cases by (simp del: split_paired_Ex split_paired_All) blast
qed

text \<open>
  The operation DELETE of a GUFI in the registry: the operation is gone from the
  registry, and the same sync is issued once, with the operations that remain.
\<close>

lemma operation_delete_sync:
  assumes ctl: "validate_control env req = None" and del: "rmethod req = ''DELETE''"
    and present: "map_of (operations s) (PStr gufi) = Some operation"
  shows "\<exists>n\<le>length (always_listen s).
           snd (client_operation_endpoint env req gufi s) =
             s\<lparr>operations := AList.delete (PStr gufi) (operations s),
                calls := calls s @ Upsert_operator (map snd (AList.delete (PStr gufi) (operations s)))
                                     (min_listen_time env) (max_listen_time env)
                         # map (\<lambda>c. Insert_observer c (min_listen_time env) (max_listen_time env))
                             (take n (always_listen s))\<rparr>
           \<and> (fst (client_operation_endpoint env req gufi s) = Returned (Text []) 204 \<longrightarrow>
                n = length (always_listen s))"
proof -
  define s0 where "s0 = s\<lparr>operations := AList.delete (PStr gufi) (operations s)\<rparr>"
  obtain r s2 where u: "update_operations env s0 = (r, s2)" by (cases "update_operations env s0") auto
  define out where "out = (case r of Some o1 \<Rightarrow> o1 | None \<Rightarrow> Returned (Text []) 204)"
  have "client_operation_endpoint env req gufi s =
      (case update_operations env s0 of (Some o1, s2) \<Rightarrow> (o1, s2) | (None, s2) \<Rightarrow> (Returned (Text []) 204, s2))"
    using ctl del present by (simp add: client_operation_endpoint_def s0_def)
  then have run: "client_operation_endpoint env req gufi s = (out, s2)"
    unfolding u out_def by (cases r) simp_all
  from update_operations_trace [OF u] obtain n where n: "n \<le> length (always_listen s0)"
    "s2 = s0\<lparr>calls := calls s0 @ Upsert_operator (map snd (operations s0)) (min_listen_time env) (max_listen_time env)
                      # map (\<lambda>c. Insert_observer c (min_listen_time env) (max_listen_time env))
                          (take n (always_listen s0))\<rparr>"
    "r = None \<longrightarrow> n = length (always_listen s0)"
    by blast
  have succ: "out = Returned (Text []) 204 \<longrightarrow> n = length (always_listen s)"
  proof (cases r)
    case None
    with n(3) show ?thesis by (simp add: s0_def)
  next
    case (Some o1)
    with update_operations_success [OF u] show ?thesis by (simp add: out_def)
  qed
  show ?thesis
  proof (rule exI [of _ n], intro conjI)
    show "n \<le> length (always_listen s)" using n(1) by (simp add: s0_def)
    show "snd (client_operation_endpoint env req gufi s) =
             s\<lparr>operations := AList.delete (PStr gufi) (operations s),
                calls := calls s @ Upsert_operator (map snd (AList.delete (PStr gufi) (operations s)))
                                     (min_listen_time env) (max_listen_time env)
                         # map (\<lambda>c. Insert_observer c (min_listen_time env) (max_listen_time env))
                             (take n (always_listen s))\<rparr>"
      unfolding run using n(2) by (simp add: s0_def)
    show "fst (client_operation_endpoint env req gufi s) = Returned (Text []) 204 \<longrightarrow>
                n = length (always_listen s)"
      unfolding run using succ by simp
  qed
qed

text \<open>
  C3. An operation upsert whose grid sync fails keeps the local write and fails with
  the grid's own status code and message. The handler passes the grid's status code to
  \<open>flask.abort\<close>, which knows the code 503 but has no exception for the code 507: when
  the grid refuses the operator entry with 503 the request is aborted with 503 and the
  grid's message, and when it refuses with 507 a \<open>LookupError\<close> escapes the handler and
  the answer is 500, carrying neither the grid's code nor its message. In both runs the
  write of \<open>g2\<close> stays in the registry and the grid is called once.
\<close>

theorem operation_upsert_unknown_status:
  "upsert_operator full_env (calls registry_state)
       [example_operation ''g1'', example_operation ''g2''] ''2019-01-01T00:00:00Z'' ''2019-12-31T00:00:00Z'' =
     HTTPError 507 ''Insufficient Storage'' ''507 Server Error: Insufficient Storage''
   \<and> client_operation_endpoint full_env (control_request ''PUT'' (example_operation ''g2'')) ''g2''
         registry_state =
       (Raised LookupError,
        registry_state\<lparr>operations := [(PStr ''g1'', example_operation ''g1''), (PStr ''g2'', example_operation ''g2'')],
                         calls := [Upsert_operator [example_operation ''g1'', example_operation ''g2'']
                                     ''2019-01-01T00:00:00Z'' ''2019-12-31T00:00:00Z'']\<rparr>)
   \<and> client_operation_endpoint rejecting_env (control_request ''PUT'' (example_operation ''g2'')) ''g2''
         registry_state =
       (Aborted 503 (Some ''Error updating InterUSS Platform Operator entry: grid unavailable''),
        registry_state\<lparr>operations := [(PStr ''g1'', example_operation ''g1''), (PStr ''g2'', example_operation ''g2'')],
                         calls := [Upsert_operator [example_operation ''g1'', example_operation ''g2'']
                                     ''2019-01-01T00:00:00Z'' ''2019-12-31T00:00:00Z'']\<rparr>)"
  by (simp add: client_operation_endpoint_def dict_set_def update_operations_def Let_def
      example_operation_def control_request_valid flask_abort_def example_abort_codes_def)

section \<open>Publishing a UVR\<close>


lemma filter_by_field_Inr:
  "filter_by_field k v us = Inr r \<Longrightarrow> r = filter (\<lambda>u. py_getitem u k = Inr v) us"
  by (induction us arbitrary: r) (auto split: sum.splits if_splits)

lemma filter_by_field_total:
  "\<forall>u\<in>set us. \<exists>x. py_getitem u k = Inr x \<Longrightarrow>
   filter_by_field k v us = Inr (filter (\<lambda>u. py_getitem u k = Inr v) us)"
  by (induction us) (auto split: sum.splits)

lemma py_getitem_no_IndexError: "py_getitem v k \<noteq> Inl IndexError"
  by (cases v) (auto split: option.splits)

lemma py_iter_no_IndexError: "py_iter v \<noteq> Inl IndexError"
  by (cases v) auto

lemma filter_by_field_no_IndexError: "filter_by_field k v us \<noteq> Inl IndexError"
  by (induction us) (auto simp: py_getitem_no_IndexError split: sum.splits)

lemma dict_set_no_IndexError: "dict_set d k v \<noteq> Inl IndexError"
  by (cases k) (auto simp: dict_set_def)

lemma all_level_operators_no_IndexError: "all_level_operators gc \<noteq> Inl IndexError"
  by (auto simp: all_level_operators_def py_getitem_no_IndexError py_iter_no_IndexError
      filter_by_field_no_IndexError split: sum.splits)

lemma prefix_substr_in: "prefix sub s \<Longrightarrow> substr_in sub s"
  by (cases s) auto

lemma own_url_contains_base:
  "\<not> prefix ''/'' mid \<Longrightarrow> substr_in base (os_path_join base [''uvrs'', mid])"
  by (rule prefix_substr_in) (auto simp: os_path_join_def join_step_def)

lemma put_urls_append: "put_urls (xs @ ys) = put_urls xs @ put_urls ys"
  by (induction xs rule: put_urls.induct) auto

lemma notified_urls_Cons:
  "notified_urls env mid (op # ops) =
     (case operator_baseurl op of
        None \<Rightarrow> notified_urls env mid ops
      | Some b \<Rightarrow>
          if substr_in (uss_baseurl env) (os_path_join b [''uvrs'', mid])
          then notified_urls env mid ops
          else os_path_join b [''uvrs'', mid] # notified_urls env mid ops)"
  by (simp add: notified_urls_def List.map_filter_simps split: option.splits)

lemma notified_urls_Nil: "notified_urls env mid [] = []"
  by (simp add: notified_urls_def List.map_filter_simps)

lemma notify_operators_trace:
  assumes "py_getitem uvr ''message_id'' = Inr (PStr mid)"
  shows "notify_operators env uvr ops acc s = (r, s') \<Longrightarrow>
     \<exists>new. s' = s\<lparr>calls := calls s @ new\<rparr>
        \<and> prefix (put_urls new) (notified_urls env mid ops)
        \<and> ((\<exists>n. r = Inr n) \<longrightarrow> put_urls new = notified_urls env mid ops)
        \<and> r \<noteq> Inl IndexError"
proof (induction ops arbitrary: acc s)
  case Nil
  then show ?case by (auto simp: notified_urls_Nil intro: exI [of _ "[]"])
next
  case (Cons op ops)
  show ?case
  proof (cases "operator_baseurl op")
    case None
    with Cons.prems assms show ?thesis
      by (intro exI [of _ "[]"])
         (auto simp: operator_baseurl_def py_getitem_no_IndexError split: sum.splits pyval.splits)
  next
    case (Some base)
    then have b: "py_getitem op ''uss_baseurl'' = Inr (PStr base)"
      by (auto simp: operator_baseurl_def split: sum.splits pyval.splits)
    let ?url = "os_path_join base [''uvrs'', mid]"
    show ?thesis
    proof (cases "substr_in (uss_baseurl env) ?url")
      case True
      with Cons.prems assms b have "notify_operators env uvr ops acc s = (r, s')" by simp
      from Cons.IH [OF this] Some True show ?thesis by (simp add: notified_urls_Cons)
    next
      case False
      let ?s1 = "s\<lparr>calls := calls s @ [Get_header (uvr_scope env)]\<rparr>"
      show ?thesis
      proof (cases "get_header env (calls s) (uvr_scope env)")
        case (Ok hdr)
        let ?s2 = "s\<lparr>calls := calls s @ [Get_header (uvr_scope env), Requests_put ?url hdr uvr]\<rparr>"
        have p2: "put_urls [Get_header (uvr_scope env), Requests_put ?url hdr uvr] = [?url]" by simp
        show ?thesis
        proof (cases "requests_put env (calls ?s1) ?url hdr uvr")
          case ok2: (Ok result)
          show ?thesis
          proof (cases "py_getitem op ''uss''")
            case (Inl e)
            with Cons.prems assms b False Ok ok2 have "r = Inl e" "s' = ?s2" by (simp_all add: Let_def)
            with Inl Some False show ?thesis
              by (intro exI [of _ "[Get_header (uvr_scope env), Requests_put ?url hdr uvr]"])
                 (auto simp: notified_urls_Cons py_getitem_no_IndexError)
          next
            case (Inr u)
            show ?thesis
            proof (cases "dict_set acc u (PDict [(PStr ''code'', PNum (of_nat (status_code result))),
                                                      (PStr ''content'', PStr (resp_content result))])")
              case e: (Inl e)
              with Cons.prems assms b False Ok ok2 Inr have "r = Inl e" "s' = ?s2" by (simp_all add: Let_def)
              with e Some False show ?thesis
                by (intro exI [of _ "[Get_header (uvr_scope env), Requests_put ?url hdr uvr]"])
                   (auto simp: notified_urls_Cons dict_set_no_IndexError)
            next
              case acc': (Inr acc')
              with Cons.prems assms b False Ok ok2 Inr
              have "notify_operators env uvr ops acc' ?s2 = (r, s')" by (simp add: Let_def)
              from Cons.IH [OF this] obtain new where new:
                "s' = ?s2\<lparr>calls := calls ?s2 @ new\<rparr>"
                "prefix (put_urls new) (notified_urls env mid ops)"
                "(\<exists>n. r = Inr n) \<longrightarrow> put_urls new = notified_urls env mid ops"
                "r \<noteq> Inl IndexError" by blast
              show ?thesis
                by (rule exI [of _ "[Get_header (uvr_scope env), Requests_put ?url hdr uvr] @ new"])
                   (use new Some False in \<open>simp add: notified_urls_Cons put_urls_append\<close>)
            qed
          qed
        next
          case (HTTPError code cont msg)
          with Cons.prems assms b False Ok have "r = Inl ExternalException" "s' = ?s2"
            by (simp_all add: Let_def)
          with Some False show ?thesis
            by (intro exI [of _ "[Get_header (uvr_scope env), Requests_put ?url hdr uvr]"])
               (auto simp: notified_urls_Cons)
        next
          case OtherException
          with Cons.prems assms b False Ok have "r = Inl ExternalException" "s' = ?s2"
            by (simp_all add: Let_def)
          with Some False show ?thesis
            by (intro exI [of _ "[Get_header (uvr_scope env), Requests_put ?url hdr uvr]"])
               (auto simp: notified_urls_Cons)
        qed
      next
        case (HTTPError code cont msg)
        with Cons.prems assms b False have "r = Inl ExternalException" "s' = ?s1"
          by (simp_all add: Let_def)
        then show ?thesis
          by (intro exI [of _ "[Get_header (uvr_scope env)]"]) auto
      next
        case OtherException
        with Cons.prems assms b False have "r = Inl ExternalException" "s' = ?s1"
          by (simp_all add: Let_def)
        then show ?thesis
          by (intro exI [of _ "[Get_header (uvr_scope env)]"]) auto
      qed
    qed
  qed
qed

lemma filter_Cons_find: "filter P us = x # xs \<Longrightarrow> List.find P us = Some x"
  by (induction us) (auto split: if_splits)

lemma matching_uvrs_snapshot:
  assumes "py_getitem gc ''data'' = Inr d" and "py_getitem d ''uvrs'' = Inr (PList us)"
    and "\<forall>u\<in>set us. \<exists>x. py_getitem u ''message_id'' = Inr x"
  shows "matching_uvrs gc mid = Inr (filter (\<lambda>u. py_getitem u ''message_id'' = Inr (PStr mid)) us)"
  using assms by (simp add: matching_uvrs_def filter_by_field_total)

lemma matching_uvrs_head:
  assumes "matching_uvrs gc mid = Inr (uvr # rest)"
  shows "py_getitem uvr ''message_id'' = Inr (PStr mid)"
proof -
  from assms obtain ul where "filter_by_field ''message_id'' (PStr mid) ul = Inr (uvr # rest)"
    by (auto simp: matching_uvrs_def split: sum.splits)
  from filter_by_field_Inr [OF this] have "uvr \<in> set (filter (\<lambda>u. py_getitem u ''message_id'' = Inr (PStr mid)) ul)"
    by (metis list.set_intros(1))
  then show ?thesis by simp
qed

lemma all_level_operators_snapshot:
  assumes "py_getitem gc ''data'' = Inr d" and "py_getitem d ''operators'' = Inr (PList os)"
    and "all_level_operators gc = Inr ops"
  shows "ops = filter is_all_level os"
proof -
  have "is_all_level = (\<lambda>u. py_getitem u ''announcement_level'' = Inr (PStr ''ALL''))"
    by (rule ext) (simp add: is_all_level_def)
  with assms filter_by_field_Inr [of "''announcement_level''" "PStr ''ALL''" os ops]
  show ?thesis by (simp add: all_level_operators_def)
qed

lemma publish_uvr_no_match:
  "matching_uvrs gc mid = Inr [] \<Longrightarrow> publish_uvr env mid gc s = (Raised IndexError, s)"
  by (simp add: publish_uvr_def)

lemma publish_uvr_selected:
  assumes m: "matching_uvrs gc mid = Inr (uvr # rest)"
  shows "\<exists>new. snd (publish_uvr env mid gc s) =
            s\<lparr>uvrs := AList.update (PStr mid) uvr (uvrs s), calls := calls s @ new\<rparr>
          \<and> fst (publish_uvr env mid gc s) \<noteq> Raised IndexError
          \<and> (\<forall>d os. py_getitem gc ''data'' = Inr d \<and> py_getitem d ''operators'' = Inr (PList os) \<longrightarrow>
                prefix (put_urls new) (notified_urls env mid (filter is_all_level os))
                \<and> ((\<exists>b c. fst (publish_uvr env mid gc s) = Returned b c) \<longrightarrow>
                     put_urls new = notified_urls env mid (filter is_all_level os)))"
proof -
  note k = matching_uvrs_head [OF m]
  let ?s1 = "s\<lparr>uvrs := AList.update (PStr mid) uvr (uvrs s)\<rparr>"
  show ?thesis
  proof (cases "all_level_operators gc")
    case (Inl e)
    with m k have "publish_uvr env mid gc s = (Raised e, ?s1)"
      by (simp add: publish_uvr_def dict_set_def)
    with Inl all_level_operators_no_IndexError [of gc] show ?thesis
      by (intro exI [of _ "[]"]) auto
  next
    case (Inr ops)
    obtain r s2 where n: "notify_operators env uvr ops [] ?s1 = (r, s2)"
      by (cases "notify_operators env uvr ops [] ?s1") auto
    from notify_operators_trace [OF k n] obtain new where new:
      "s2 = ?s1\<lparr>calls := calls ?s1 @ new\<rparr>"
      "prefix (put_urls new) (notified_urls env mid ops)"
      "(\<exists>n. r = Inr n) \<longrightarrow> put_urls new = notified_urls env mid ops"
      "r \<noteq> Inl IndexError" by blast
    have run: "publish_uvr env mid gc s =
        ((case r of Inl e \<Rightarrow> Raised e
          | Inr notifications \<Rightarrow> Returned (Jsonify (PDict [(PStr ''uvr'', uvr),
                               (PStr ''notifications'', PDict notifications)])) 200), s2)"
      using m k Inr n by (simp add: publish_uvr_def dict_set_def split: sum.splits)
    show ?thesis
    proof (rule exI [of _ new], intro conjI allI impI)
      show "snd (publish_uvr env mid gc s) =
          s\<lparr>uvrs := AList.update (PStr mid) uvr (uvrs s), calls := calls s @ new\<rparr>"
        using run new(1) by simp
      show "fst (publish_uvr env mid gc s) \<noteq> Raised IndexError"
        using run new(4) by (auto split: sum.splits)
    next
      fix d os
      assume h: "py_getitem gc ''data'' = Inr d \<and> py_getitem d ''operators'' = Inr (PList os)"
      with all_level_operators_snapshot [of gc d os ops] Inr have ops: "ops = filter is_all_level os"
        by simp
      show "prefix (put_urls new) (notified_urls env mid (filter is_all_level os))"
        using new(2) ops by simp
      assume "\<exists>b c. fst (publish_uvr env mid gc s) = Returned b c"
      with run have "\<exists>n. r = Inr n" by (cases r) auto
      with new(3) ops show "put_urls new = notified_urls env mid (filter is_all_level os)" by simp
    qed
  qed
qed

lemma publish_uvr_quiet:
  assumes "matching_uvrs gc mid = Inl e \<or> matching_uvrs gc mid = Inr []"
  shows "snd (publish_uvr env mid gc s) = s"
  using assms by (auto simp: publish_uvr_def)

lemma client_uvr_put:
  assumes "validate_control env req = None" and "rmethod req = ''PUT''"
    and "upsert_uvr env (calls s) (rjson req) = Ok gc"
  shows "client_uvr_endpoint env req mid s =
           publish_uvr env mid gc (s\<lparr>calls := calls s @ [Upsert_uvr (rjson req)]\<rparr>)"
  using assms by (simp add: client_uvr_endpoint_def Let_def)

lemma busy_publish:
  "client_uvr_endpoint busy_env (control_request ''PUT'' (example_uvr ''m1'')) ''m1'' empty_state =
     (Returned (Jsonify (PDict
        [(PStr ''uvr'', example_uvr ''m1''),
         (PStr ''notifications'', PDict
            [(PStr ''uss-b'', PDict [(PStr ''code'', PNum 204), (PStr ''content'', PStr [])]),
             (PStr ''uss-d'', PDict [(PStr ''code'', PNum 204), (PStr ''content'', PStr [])])])])) 200,
      empty_state\<lparr>uvrs := [(PStr ''m1'', example_uvr ''m1'')],
                   calls := [Upsert_uvr (example_uvr ''m1''),
                             Get_header ''uvr.scope'',
                             Requests_put ''http://uss-b.example/uvrs/m1''
                               (PDict [(PStr ''Authorization'', PStr ''Bearer t'')]) (example_uvr ''m1''),
                             Get_header ''uvr.scope'',
                             Requests_put ''http://uss-d.example/api/uvrs/m1''
                               (PDict [(PStr ''Authorization'', PStr ''Bearer t'')]) (example_uvr ''m1'')]\<rparr>)"
  by (simp add: client_uvr_endpoint_def control_request_valid publish_uvr_def matching_uvrs_def
      all_level_operators_def four_operators_def dict_set_def Let_def os_path_join_def join_step_def
      suffix_single ok_response_def)

lemma lookalike_publish:
  "client_uvr_endpoint lookalike_env (control_request ''PUT'' (example_uvr ''m1'')) ''m1'' empty_state =
     (Returned (Jsonify (PDict [(PStr ''uvr'', example_uvr ''m1''), (PStr ''notifications'', PDict [])])) 200,
      empty_state\<lparr>uvrs := [(PStr ''m1'', example_uvr ''m1'')],
                   calls := [Upsert_uvr (example_uvr ''m1'')]\<rparr>)"
  by (simp add: client_uvr_endpoint_def control_request_valid publish_uvr_def matching_uvrs_def
      all_level_operators_def dict_set_def Let_def os_path_join_def join_step_def suffix_single)

lemma unreachable_publish:
  "client_uvr_endpoint unreachable_env (control_request ''PUT'' (example_uvr ''m1'')) ''m1'' empty_state =
     (Raised ExternalException,
      empty_state\<lparr>uvrs := [(PStr ''m1'', example_uvr ''m1'')],
                   calls := [Upsert_uvr (example_uvr ''m1''),
                             Get_header ''uvr.scope'',
                             Requests_put ''http://uss-b.example/uvrs/m1''
                               (PDict [(PStr ''Authorization'', PStr ''Bearer t'')]) (example_uvr ''m1'')]\<rparr>)"
  by (simp add: client_uvr_endpoint_def control_request_valid publish_uvr_def matching_uvrs_def
      all_level_operators_def four_operators_def dict_set_def Let_def os_path_join_def join_step_def
      suffix_single)

lemma forgetful_publish:
  "client_uvr_endpoint forgetful_env (control_request ''PUT'' (example_uvr ''m1'')) ''m1'' empty_state =
     (Raised IndexError, empty_state\<lparr>calls := [Upsert_uvr (example_uvr ''m1'')]\<rparr>)"
  by (simp add: client_uvr_endpoint_def control_request_valid publish_uvr_def matching_uvrs_def Let_def)

lemma example_publish:
  "client_uvr_endpoint example_env (control_request ''PUT'' (example_uvr ''m1'')) ''m1'' empty_state =
     (Returned (Jsonify (PDict [(PStr ''uvr'', example_uvr ''m1''), (PStr ''notifications'', PDict [])])) 200,
      empty_state\<lparr>uvrs := [(PStr ''m1'', example_uvr ''m1'')],
                   calls := [Upsert_uvr (example_uvr ''m1'')]\<rparr>)"
  by (simp add: client_uvr_endpoint_def publish_uvr_def matching_uvrs_def
      all_level_operators_def dict_set_def Let_def)

text \<open>
  C9. After a successful grid upsert the publish takes element 0 of the snapshot's UVRs
  filtered to the message id, with no test for emptiness. When the snapshot's UVR list
  (each entry carrying a \<open>message_id\<close>) holds an entry with that id, the first such
  entry is selected and cached, and no \<open>IndexError\<close> is raised; when it holds none, the
  handler ends in an uncaught \<open>IndexError\<close>, not in a response of its own, with nothing
  cached.
\<close>

theorem uvr_selection:
  assumes ctl: "validate_control env req = None" and put: "rmethod req = ''PUT''"
    and ok: "upsert_uvr env (calls s) (rjson req) = Ok gc"
    and d: "py_getitem gc ''data'' = Inr d" and us: "py_getitem d ''uvrs'' = Inr (PList us)"
    and wf: "\<forall>u\<in>set us. \<exists>x. py_getitem u ''message_id'' = Inr x"
  shows "((\<exists>u\<in>set us. py_getitem u ''message_id'' = Inr (PStr mid)) \<longrightarrow>
            map_of (uvrs (snd (client_uvr_endpoint env req mid s))) (PStr mid) =
              List.find (\<lambda>u. py_getitem u ''message_id'' = Inr (PStr mid)) us
            \<and> fst (client_uvr_endpoint env req mid s) \<noteq> Raised IndexError)
       \<and> ((\<forall>u\<in>set us. py_getitem u ''message_id'' \<noteq> Inr (PStr mid)) \<longrightarrow>
            client_uvr_endpoint env req mid s =
              (Raised IndexError, s\<lparr>calls := calls s @ [Upsert_uvr (rjson req)]\<rparr>))"
proof -
  let ?P = "\<lambda>u. py_getitem u ''message_id'' = Inr (PStr mid)"
  let ?s1 = "s\<lparr>calls := calls s @ [Upsert_uvr (rjson req)]\<rparr>"
  note run = client_uvr_put [OF ctl put ok, of mid]
  note m = matching_uvrs_snapshot [OF d us wf, of mid]
  have one: "map_of (uvrs (snd (client_uvr_endpoint env req mid s))) (PStr mid) = List.find ?P us
        \<and> fst (client_uvr_endpoint env req mid s) \<noteq> Raised IndexError" if "\<exists>u\<in>set us. ?P u"
  proof -
    from that
    obtain uvr rest where f: "filter ?P us = uvr # rest"
      by (cases "filter ?P us") (auto simp: filter_empty_conv)
    from publish_uvr_selected [of gc mid uvr rest env ?s1] m f obtain new where
      "snd (publish_uvr env mid gc ?s1) =
         ?s1\<lparr>uvrs := AList.update (PStr mid) uvr (uvrs ?s1), calls := calls ?s1 @ new\<rparr>"
      "fst (publish_uvr env mid gc ?s1) \<noteq> Raised IndexError" by auto
    with run filter_Cons_find [OF f] show ?thesis
      by (simp add: update_conv')
  qed
  have none: "client_uvr_endpoint env req mid s = (Raised IndexError, ?s1)"
    if "\<forall>u\<in>set us. py_getitem u ''message_id'' \<noteq> Inr (PStr mid)"
  proof -
    from that have "filter ?P us = []" by (simp add: filter_empty_conv)
    with m run show ?thesis by (simp add: publish_uvr_no_match)
  qed
  from one none show ?thesis by blast
qed

theorem uvr_selection_witness:
  "validate_control example_env (control_request ''PUT'' (example_uvr ''m1'')) = None
   \<and> upsert_uvr example_env [] (example_uvr ''m1'') = Ok (example_snapshot [example_uvr ''m1''] [])
   \<and> map_of (uvrs (snd (client_uvr_endpoint example_env (control_request ''PUT'' (example_uvr ''m1''))
         ''m1'' empty_state))) (PStr ''m1'') = Some (example_uvr ''m1'')
   \<and> upsert_uvr forgetful_env [] (example_uvr ''m1'') = Ok (example_snapshot [] four_operators)
   \<and> client_uvr_endpoint forgetful_env (control_request ''PUT'' (example_uvr ''m1'')) ''m1'' empty_state =
       (Raised IndexError, empty_state\<lparr>calls := [Upsert_uvr (example_uvr ''m1'')]\<rparr>)"
proof -
  have c1: "validate_control example_env (control_request ''PUT'' (example_uvr ''m1'')) = None" by simp
  have c2: "validate_control forgetful_env (control_request ''PUT'' (example_uvr ''m1'')) = None"
    by (simp add: control_request_valid)
  have m: "rmethod (control_request ''PUT'' (example_uvr ''m1'')) = ''PUT''" by simp
  have ok1: "upsert_uvr example_env (calls empty_state) (rjson (control_request ''PUT'' (example_uvr ''m1'')))
      = Ok (example_snapshot [example_uvr ''m1''] [])" by simp
  have ok2: "upsert_uvr forgetful_env (calls empty_state) (rjson (control_request ''PUT'' (example_uvr ''m1'')))
      = Ok (example_snapshot [] four_operators)" by simp
  have d1: "py_getitem (example_snapshot [example_uvr ''m1''] []) ''data'' =
      Inr (PDict [(PStr ''uvrs'', PList [example_uvr ''m1'']), (PStr ''operators'', PList [])])" by simp
  have d2: "py_getitem (example_snapshot [] four_operators) ''data'' =
      Inr (PDict [(PStr ''uvrs'', PList []), (PStr ''operators'', PList four_operators)])" by simp
  have u1: "py_getitem (PDict [(PStr ''uvrs'', PList [example_uvr ''m1'']), (PStr ''operators'', PList [])])
      ''uvrs'' = Inr (PList [example_uvr ''m1''])" by simp
  have u2: "py_getitem (PDict [(PStr ''uvrs'', PList []), (PStr ''operators'', PList four_operators)])
      ''uvrs'' = Inr (PList [])" by simp
  have w1: "\<forall>u\<in>set [example_uvr ''m1'']. \<exists>x. py_getitem u ''message_id'' = Inr x" by simp
  have w2: "\<forall>u\<in>set ([] :: pyval list). \<exists>x. py_getitem u ''message_id'' = Inr x" by simp
  from uvr_selection [OF c1 m ok1 d1 u1 w1, of "''m1''"] uvr_selection [OF c2 m ok2 d2 u2 w2, of "''m1''"]
  show ?thesis by simp
qed

text \<open>
  The notification PUTs of a publish whose grid upsert succeeds, for any snapshot: they
  go, in snapshot order, to the notification URLs of the participants at level \<open>ALL\<close>
  in whose URL this participant's base URL does not occur; the loop stops at the first
  call that raises, so the PUTs made are an initial part of that list, and all of it
  when the publish returns its response.
\<close>

lemma publish_put_urls:
  assumes ctl: "validate_control env req = None" and put: "rmethod req = ''PUT''"
    and ok: "upsert_uvr env (calls s) (rjson req) = Ok gc"
    and d: "py_getitem gc ''data'' = Inr d" and os: "py_getitem d ''operators'' = Inr (PList os)"
  shows "\<exists>new. calls (snd (client_uvr_endpoint env req mid s)) = calls s @ Upsert_uvr (rjson req) # new
      \<and> prefix (put_urls new) (notified_urls env mid (filter is_all_level os))
      \<and> ((\<exists>b c. fst (client_uvr_endpoint env req mid s) = Returned b c) \<longrightarrow>
             put_urls new = notified_urls env mid (filter is_all_level os))
      \<and> (\<not> prefix ''/'' mid \<longrightarrow>
             os_path_join (uss_baseurl env) [''uvrs'', mid] \<notin> set (put_urls new))"
proof -
  let ?s1 = "s\<lparr>calls := calls s @ [Upsert_uvr (rjson req)]\<rparr>"
  let ?R = "publish_uvr env mid gc ?s1"
  let ?N = "notified_urls env mid (filter is_all_level os)"
  note run = client_uvr_put [OF ctl put ok, of mid]
  have "\<exists>new. calls (snd ?R) = calls ?s1 @ new \<and> prefix (put_urls new) ?N
      \<and> ((\<exists>b c. fst ?R = Returned b c) \<longrightarrow> put_urls new = ?N)"
  proof (cases "matching_uvrs gc mid")
    case (Inl e)
    then show ?thesis
      by (intro exI [of _ "[]"]) (auto simp: publish_uvr_def)
  next
    case (Inr ms)
    show ?thesis
    proof (cases ms)
      case Nil
      with Inr show ?thesis
        by (intro exI [of _ "[]"]) (auto simp: publish_uvr_def)
    next
      case (Cons uvr rest)
      with Inr have "matching_uvrs gc mid = Inr (uvr # rest)" by simp
      from publish_uvr_selected [OF this, of env ?s1] d os show ?thesis by fastforce
    qed
  qed
  then obtain new where new: "calls (snd ?R) = calls ?s1 @ new" "prefix (put_urls new) ?N"
    "(\<exists>b c. fst ?R = Returned b c) \<longrightarrow> put_urls new = ?N" by blast
  have self: "\<not> prefix ''/'' mid \<longrightarrow> os_path_join (uss_baseurl env) [''uvrs'', mid] \<notin> set (put_urls new)"
  proof
    assume "\<not> prefix ''/'' mid"
    from own_url_contains_base [OF this, of "uss_baseurl env"]
    have "os_path_join (uss_baseurl env) [''uvrs'', mid] \<notin> set ?N"
      by (auto simp: notified_urls_def)
    with set_mono_prefix [OF new(2)]
    show "os_path_join (uss_baseurl env) [''uvrs'', mid] \<notin> set (put_urls new)" by blast
  qed
  show ?thesis
    by (rule exI [of _ new]) (use run new self in simp)
qed

text \<open>
  C1. In a UVR publish whose grid upsert succeeds, a notification PUT is attempted to
  exactly the participants of the snapshot at level \<open>ALL\<close> other than this participant,
  which is told apart by its base URL. This holds in the first run below: of this
  participant, two peers at level \<open>ALL\<close> and one at level \<open>RESTRICTED\<close>, the two peers
  are notified. It fails in the other two. In the second run the snapshot's only other
  participant is at level \<open>ALL\<close> with the base URL \<open>http://uss-a.example.org\<close>, which is
  not this participant's \<open>http://uss-a.example\<close>: the handler tests whether its own
  base URL occurs in the notification URL, takes the peer for itself, and the publish
  answers 200 without any notification PUT. In the third run the snapshot is that of
  the first and no peer can be reached: the exception of the first PUT escapes the
  handler, so one attempt is made where two peers are to be notified.
\<close>

theorem uvr_publish_missed_peers:
  "map operator_baseurl (filter is_all_level four_operators) =
     [Some ''http://uss-a.example'', Some ''http://uss-b.example'', Some ''http://uss-d.example/api'']
   \<and> uss_baseurl busy_env = ''http://uss-a.example''
   \<and> put_urls (calls (snd (client_uvr_endpoint busy_env (control_request ''PUT'' (example_uvr ''m1''))
         ''m1'' empty_state))) =
       [''http://uss-b.example/uvrs/m1'', ''http://uss-d.example/api/uvrs/m1'']
   \<and> map operator_baseurl (filter is_all_level [example_operator ''uss-b'' ''http://uss-a.example.org'' ''ALL'']) =
       [Some ''http://uss-a.example.org'']
   \<and> uss_baseurl lookalike_env = ''http://uss-a.example''
   \<and> peers_by_baseurl lookalike_env ''m1''
       (filter is_all_level [example_operator ''uss-b'' ''http://uss-a.example.org'' ''ALL'']) =
     [''http://uss-a.example.org/uvrs/m1'']
   \<and> client_uvr_endpoint lookalike_env (control_request ''PUT'' (example_uvr ''m1'')) ''m1'' empty_state =
     (Returned (Jsonify (PDict [(PStr ''uvr'', example_uvr ''m1''), (PStr ''notifications'', PDict [])])) 200,
      empty_state\<lparr>uvrs := [(PStr ''m1'', example_uvr ''m1'')],
                   calls := [Upsert_uvr (example_uvr ''m1'')]\<rparr>)
   \<and> put_urls (calls (snd (client_uvr_endpoint lookalike_env (control_request ''PUT'' (example_uvr ''m1''))
         ''m1'' empty_state))) = []
   \<and> uss_baseurl unreachable_env = ''http://uss-a.example''
   \<and> peers_by_baseurl unreachable_env ''m1'' (filter is_all_level four_operators) =
     [''http://uss-b.example/uvrs/m1'', ''http://uss-d.example/api/uvrs/m1'']
   \<and> client_uvr_endpoint unreachable_env (control_request ''PUT'' (example_uvr ''m1'')) ''m1'' empty_state =
     (Raised ExternalException,
      empty_state\<lparr>uvrs := [(PStr ''m1'', example_uvr ''m1'')],
                   calls := [Upsert_uvr (example_uvr ''m1''),
                             Get_header ''uvr.scope'',
                             Requests_put ''http://uss-b.example/uvrs/m1''
                               (PDict [(PStr ''Authorization'', PStr ''Bearer t'')]) (example_uvr ''m1'')]\<rparr>)
   \<and> put_urls (calls (snd (client_uvr_endpoint unreachable_env (control_request ''PUT'' (example_uvr ''m1''))
         ''m1'' empty_state))) = [''http://uss-b.example/uvrs/m1'']"
  by (simp add: busy_publish lookalike_publish unreachable_publish four_operators_def is_all_level_def
      operator_baseurl_def peers_by_baseurl_def List.map_filter_simps os_path_join_def join_step_def
      suffix_single)

section \<open>Withdrawing a UVR\<close>









lemma delete_cached_run:
  "client_uvr_endpoint example_env (control_request ''DELETE'' PNone) ''m1'' registry_state =
     (Returned (Text []) 204,
      registry_state\<lparr>uvrs := [], calls := [Remove_uvr (example_uvr ''m1'')]\<rparr>)"
  by (simp add: client_uvr_endpoint_def try_remove_uvr_def Let_def)

lemma delete_refused_run:
  "client_uvr_endpoint stubborn_env (control_request ''DELETE'' PNone) ''m1'' registry_state =
     (Returned (Text ''404 Client Error: Not Found'') 404,
      registry_state\<lparr>calls := [Remove_uvr (example_uvr ''m1'')]\<rparr>)"
  by (simp add: client_uvr_endpoint_def try_remove_uvr_def Let_def control_request_valid
      error_response_def)

lemma delete_uncached_run:
  "client_uvr_endpoint area_env (control_request ''DELETE'' (example_geo_uvr ''m1'')) ''m1'' empty_state =
     (Returned (Text []) 204,
      empty_state\<lparr>calls := [Get_operators_by_area example_area, Remove_uvr (example_uvr ''m1'')]\<rparr>)"
  by (simp add: client_uvr_endpoint_def try_remove_uvr_def Let_def control_request_valid)

lemma delete_unknown_run:
  "client_uvr_endpoint area_env (control_request ''DELETE'' (example_geo_uvr ''m9'')) ''m9'' empty_state =
     (Returned (Text ''UVR m9 not found'') 404,
      empty_state\<lparr>calls := [Get_operators_by_area example_area]\<rparr>)"
  by (simp add: client_uvr_endpoint_def Let_def control_request_valid error_response_def)



section \<open>The slippy-cell check\<close>

text \<open>
  What the two matchers accept: \<open>slippy_exact\<close> the strings made of three non-empty
  runs of digits separated by slashes, \<open>re_match_slippy\<close> (the \<open>re.match\<close> of the
  source) the strings that begin with one.
\<close>


lemma slash_not_digit: "\<not> is_digit CHR ''/''"
  by (simp add: is_digit_def)

lemma match_digits_Some:
  "match_digits s = Some r \<longleftrightarrow>
     takeWhile is_digit s \<noteq> [] \<and> r = dropWhile is_digit s"
  by (auto simp: match_digits_def)

lemma match_slash_Some: "match_slash s = Some r \<longleftrightarrow> s = CHR ''/'' # r"
  by (auto simp: match_slash_def split: list.splits)

lemma match_digits_run:
  assumes "a \<noteq> []" and "\<forall>c\<in>set a. is_digit c"
  shows "match_digits (a @ CHR ''/'' # r) = Some (CHR ''/'' # r)"
  using assms by (simp add: match_digits_def takeWhile_append2 dropWhile_append2 slash_not_digit
      takeWhile_tail dropWhile_append3)

lemma match_two_fields_Some:
  "match_two_fields s = Some r \<longleftrightarrow>
     (\<exists>a b. s = a @ ''/'' @ b @ ''/'' @ r \<and> a \<noteq> [] \<and> b \<noteq> []
            \<and> (\<forall>c\<in>set a. is_digit c) \<and> (\<forall>c\<in>set b. is_digit c))"
proof
  assume m: "match_two_fields s = Some r"
  then obtain r1 r2 r3 where
    "match_digits s = Some r1" "match_slash r1 = Some r2"
    "match_digits r2 = Some r3" "match_slash r3 = Some r"
    by (auto simp: match_two_fields_def split: option.splits)
  then have 1: "takeWhile is_digit s \<noteq> []" "dropWhile is_digit s = CHR ''/'' # r2"
    and 2: "takeWhile is_digit r2 \<noteq> []" "dropWhile is_digit r2 = CHR ''/'' # r"
    by (auto simp: match_digits_Some match_slash_Some)
  have "s = takeWhile is_digit s @ dropWhile is_digit s" by simp
  moreover have "r2 = takeWhile is_digit r2 @ dropWhile is_digit r2" by simp
  ultimately have "s = takeWhile is_digit s @ ''/'' @ takeWhile is_digit r2 @ ''/'' @ r"
    using 1(2) 2(2) by (metis append_Cons append_Nil)
  moreover have "\<forall>c\<in>set (takeWhile is_digit s). is_digit c" "\<forall>c\<in>set (takeWhile is_digit r2). is_digit c"
    by (auto dest: set_takeWhileD)
  ultimately show "\<exists>a b. s = a @ ''/'' @ b @ ''/'' @ r \<and> a \<noteq> [] \<and> b \<noteq> []
            \<and> (\<forall>c\<in>set a. is_digit c) \<and> (\<forall>c\<in>set b. is_digit c)"
    using 1(1) 2(1) by blast
next
  assume "\<exists>a b. s = a @ ''/'' @ b @ ''/'' @ r \<and> a \<noteq> [] \<and> b \<noteq> []
            \<and> (\<forall>c\<in>set a. is_digit c) \<and> (\<forall>c\<in>set b. is_digit c)"
  then obtain a b where s: "s = a @ CHR ''/'' # (b @ CHR ''/'' # r)" and ab: "a \<noteq> []" "b \<noteq> []"
    "\<forall>c\<in>set a. is_digit c" "\<forall>c\<in>set b. is_digit c" by auto
  show "match_two_fields s = Some r"
    using match_digits_run [OF ab(1) ab(3)] match_digits_run [OF ab(2) ab(4)]
    by (simp add: match_two_fields_def s match_slash_def)
qed

lemma slippy_exact_iff:
  "slippy_exact s \<longleftrightarrow>
     (\<exists>a b c. s = a @ ''/'' @ b @ ''/'' @ c \<and> a \<noteq> [] \<and> b \<noteq> [] \<and> c \<noteq> []
              \<and> (\<forall>x\<in>set (a @ b @ c). is_digit x))"
proof
  assume "slippy_exact s"
  then obtain r where r: "match_two_fields s = Some r" "match_digits r = Some []"
    by (auto simp: slippy_exact_def split: option.splits)
  from r(2) have "takeWhile is_digit r \<noteq> []" "dropWhile is_digit r = []"
    by (auto simp: match_digits_Some)
  then have "r \<noteq> []" "\<forall>x\<in>set r. is_digit x" by (auto simp: dropWhile_eq_Nil_conv)
  with r(1) show "\<exists>a b c. s = a @ ''/'' @ b @ ''/'' @ c \<and> a \<noteq> [] \<and> b \<noteq> [] \<and> c \<noteq> []
              \<and> (\<forall>x\<in>set (a @ b @ c). is_digit x)"
    unfolding match_two_fields_Some by fastforce
next
  assume "\<exists>a b c. s = a @ ''/'' @ b @ ''/'' @ c \<and> a \<noteq> [] \<and> b \<noteq> [] \<and> c \<noteq> []
              \<and> (\<forall>x\<in>set (a @ b @ c). is_digit x)"
  then obtain a b c where s: "s = a @ ''/'' @ b @ ''/'' @ c" and abc: "a \<noteq> []" "b \<noteq> []" "c \<noteq> []"
    "\<forall>x\<in>set a. is_digit x" "\<forall>x\<in>set b. is_digit x" "\<forall>x\<in>set c. is_digit x" by auto
  have "match_two_fields s = Some c" unfolding match_two_fields_Some using s abc by blast
  moreover have "match_digits c = Some []"
    using abc(3,6) by (cases c) (auto simp: match_digits_def dropWhile_eq_Nil_conv)
  ultimately show "slippy_exact s" by (simp add: slippy_exact_def)
qed

lemma re_match_slippy_iff: "re_match_slippy s \<longleftrightarrow> (\<exists>p r. s = p @ r \<and> slippy_exact p)"
proof
  assume "re_match_slippy s"
  then obtain r4 where r: "match_two_fields s = Some r4" "takeWhile is_digit r4 \<noteq> []"
    by (auto simp: re_match_slippy_def match_digits_def split: option.splits if_splits)
  from r(1) obtain a b where ab: "s = a @ ''/'' @ b @ ''/'' @ r4" "a \<noteq> []" "b \<noteq> []"
    "\<forall>c\<in>set a. is_digit c" "\<forall>c\<in>set b. is_digit c"
    unfolding match_two_fields_Some by blast
  let ?c = "takeWhile is_digit r4"
  have "slippy_exact (a @ ''/'' @ b @ ''/'' @ ?c)"
    unfolding slippy_exact_iff using ab r(2) by (fastforce dest: set_takeWhileD)
  moreover have "s = (a @ ''/'' @ b @ ''/'' @ ?c) @ dropWhile is_digit r4"
    using ab(1) by simp
  ultimately show "\<exists>p r. s = p @ r \<and> slippy_exact p" by blast
next
  assume "\<exists>p r. s = p @ r \<and> slippy_exact p"
  then obtain p r a b c where s: "s = p @ r" "p = a @ ''/'' @ b @ ''/'' @ c"
    and abc: "a \<noteq> []" "b \<noteq> []" "c \<noteq> []"
    "\<forall>x\<in>set a. is_digit x" "\<forall>x\<in>set b. is_digit x" "\<forall>x\<in>set c. is_digit x"
    unfolding slippy_exact_iff by auto
  have "match_two_fields s = Some (c @ r)"
    unfolding match_two_fields_Some using s abc by auto
  moreover have "takeWhile is_digit (c @ r) \<noteq> []"
    using abc(3,6) by (cases c) auto
  ultimately show "re_match_slippy s" by (simp add: re_match_slippy_def match_digits_def)
qed


lemma check_cells_strings:
  "check_cells (map PStr cells) =
     (case List.find (\<lambda>c. \<not> re_match_slippy c) cells of
        Some bad \<Rightarrow> Inl (error_response 400 (''Invalid slippy cell: '' @ bad))
      | None \<Rightarrow> Inr cells)"
  by (induction cells) (auto split: option.splits)

lemma alwayslisten_put_rejects:
  assumes "validate_control env req = None" and "rmethod req = ''PUT''"
    and "rjson req = PList (map PStr cells)"
    and "List.find (\<lambda>c. \<not> re_match_slippy c) cells = Some bad"
  shows "alwayslisten_endpoint env req s = (Returned (Text (''Invalid slippy cell: '' @ bad)) 400, s)"
  using assms by (simp add: alwayslisten_endpoint_def check_cells_strings error_response_def)

lemma remove_entries_trace:
  "remove_entries env (map PStr cells) acc s = (r, s') \<Longrightarrow>
   \<exists>n\<le>length (takeWhile re_match_slippy cells).
     s' = s\<lparr>calls := calls s @ map Remove_operator_by_cell (take n (takeWhile re_match_slippy cells))\<rparr>
     \<and> ((\<exists>e. r = Inl (Raised e))
        \<or> (n = length (takeWhile re_match_slippy cells)
           \<and> (\<forall>bad. List.find (\<lambda>c. \<not> re_match_slippy c) cells = Some bad \<longrightarrow>
                 r = Inl (Returned (Text (''Invalid slippy cell: '' @ bad)) 400))))"
proof (induction cells arbitrary: acc s)
  case Nil
  then show ?case by simp
next
  case (Cons c cells)
  show ?case
  proof (cases "re_match_slippy c")
    case False
    with Cons.prems show ?thesis by (simp add: error_response_def)
  next
    case True
    let ?s1 = "s\<lparr>calls := calls s @ [Remove_operator_by_cell c]\<rparr>"
    have stop: ?thesis if "r = Inl (Raised e)" "s' = ?s1" for e
      by (rule exI [of _ 1]) (use that True in auto)
    show ?thesis
    proof (cases "remove_operator_by_cell env (calls s) c")
      case (Ok response)
      show ?thesis
      proof (cases "if status_code response = 200
                       then (case resp_json response of None \<Rightarrow> Inl ValueError | Some j \<Rightarrow> Inr j)
                       else Inr (PStr (resp_content response))")
        case (Inl e)
        with Cons.prems True Ok have "r = Inl (Raised e)" "s' = ?s1"
          by (simp_all add: Let_def split: if_splits)
        then show ?thesis by (rule stop)
      next
        case (Inr cont)
        with Cons.prems True Ok obtain acc' where
          "remove_entries env (map PStr cells) acc' ?s1 = (r, s')"
          by (simp add: Let_def split: if_splits)
        from Cons.IH [OF this] obtain n where n: "n \<le> length (takeWhile re_match_slippy cells)"
          "s' = ?s1\<lparr>calls := calls ?s1 @ map Remove_operator_by_cell (take n (takeWhile re_match_slippy cells))\<rparr>"
          "(\<exists>e. r = Inl (Raised e))
            \<or> (n = length (takeWhile re_match_slippy cells)
               \<and> (\<forall>bad. List.find (\<lambda>c. \<not> re_match_slippy c) cells = Some bad \<longrightarrow>
                     r = Inl (Returned (Text (''Invalid slippy cell: '' @ bad)) 400)))" by blast
        show ?thesis
          by (rule exI [of _ "Suc n"]) (use n True in auto)
      qed
    next
      case (HTTPError code cont msg)
      with Cons.prems True have "r = Inl (Raised ExternalException)" "s' = ?s1"
        by (simp_all add: Let_def)
      then show ?thesis by (rule stop)
    next
      case OtherException
      with Cons.prems True have "r = Inl (Raised ExternalException)" "s' = ?s1"
        by (simp_all add: Let_def)
      then show ?thesis by (rule stop)
    qed
  qed
qed

lemma first_unmatched:
  assumes "c \<in> set cells" and "\<forall>p r. c = p @ r \<longrightarrow> \<not> slippy_exact p"
  shows "\<exists>bad. List.find (\<lambda>c. \<not> re_match_slippy c) cells = Some bad"
proof -
  from assms(2) have "\<not> re_match_slippy c" unfolding re_match_slippy_iff by blast
  with assms(1) show ?thesis by (cases "List.find (\<lambda>c. \<not> re_match_slippy c) cells") (auto simp: find_None_iff)
qed

lemma slippy_samples [simp]:
  "re_match_slippy ''10/1/2''" "\<not> re_match_slippy ''x/1/2''" "re_match_slippy ''3/4/5''"
  "re_match_slippy ''1/2/3abc''" "\<not> slippy_exact ''1/2/3abc''" "\<not> re_match_slippy ''x''"
  by (simp_all add: re_match_slippy_def slippy_exact_def match_two_fields_def match_digits_def
      match_slash_def is_digit_def)

lemma always_listen_bad_run:
  "alwayslisten_endpoint example_env
     (control_request ''PUT'' (PList [PStr ''10/1/2'', PStr ''x/1/2'', PStr ''3/4/5''])) registry_state =
     (Returned (Text ''Invalid slippy cell: x/1/2'') 400, registry_state)"
  by (simp add: alwayslisten_endpoint_def error_response_def)

lemma operator_entries_bad_run:
  "operator_entries_endpoint example_env
     (control_request ''DELETE'' (PList [PStr ''10/1/2'', PStr ''x/1/2'', PStr ''3/4/5''])) registry_state =
     (Returned (Text ''Invalid slippy cell: x/1/2'') 400,
      registry_state\<lparr>calls := [Remove_operator_by_cell ''10/1/2'']\<rparr>)"
  by (simp add: operator_entries_endpoint_def error_response_def ok_response_def Let_def)

text \<open>
  What the two handlers do with a list of strings one of which does not begin with
  integer/integer/integer: the always-listen PUT answers 400 naming the first such
  cell, before any grid call and without changing the list; the bulk DELETE removes
  cells from the grid up to that cell and then answers 400.
\<close>

lemma unmatched_cell_rejected:
  assumes ctl: "validate_control env req = None" and body: "rjson req = PList (map PStr cells)"
    and c: "c \<in> set cells" and nomatch: "\<forall>p r. c = p @ r \<longrightarrow> \<not> slippy_exact p"
  shows "\<exists>bad. List.find (\<lambda>c. \<not> re_match_slippy c) cells = Some bad
      \<and> (rmethod req = ''PUT'' \<longrightarrow>
           alwayslisten_endpoint env req s = (Returned (Text (''Invalid slippy cell: '' @ bad)) 400, s))
      \<and> (\<exists>n\<le>length (takeWhile re_match_slippy cells).
           snd (operator_entries_endpoint env req s) =
             s\<lparr>calls := calls s @ map Remove_operator_by_cell (take n (takeWhile re_match_slippy cells))\<rparr>
           \<and> ((\<exists>e. fst (operator_entries_endpoint env req s) = Raised e)
              \<or> (n = length (takeWhile re_match_slippy cells)
                 \<and> fst (operator_entries_endpoint env req s) =
                     Returned (Text (''Invalid slippy cell: '' @ bad)) 400)))"
proof -
  from first_unmatched [OF c nomatch] obtain bad where
    bad: "List.find (\<lambda>c. \<not> re_match_slippy c) cells = Some bad" by blast
  obtain r s' where run: "remove_entries env (map PStr cells) [] s = (r, s')"
    by (cases "remove_entries env (map PStr cells) [] s") auto
  from remove_entries_trace [OF run] bad obtain n where n:
    "n \<le> length (takeWhile re_match_slippy cells)"
    "s' = s\<lparr>calls := calls s @ map Remove_operator_by_cell (take n (takeWhile re_match_slippy cells))\<rparr>"
    "(\<exists>e. r = Inl (Raised e))
       \<or> (n = length (takeWhile re_match_slippy cells)
          \<and> r = Inl (Returned (Text (''Invalid slippy cell: '' @ bad)) 400))" by blast
  have oe: "operator_entries_endpoint env req s =
      (case r of Inl out \<Rightarrow> (out, s') | Inr result \<Rightarrow> (Returned (Jsonify (PDict result)) 200, s'))"
    using ctl body run by (simp add: operator_entries_endpoint_def split: sum.splits)
  have "\<exists>n\<le>length (takeWhile re_match_slippy cells).
           snd (operator_entries_endpoint env req s) =
             s\<lparr>calls := calls s @ map Remove_operator_by_cell (take n (takeWhile re_match_slippy cells))\<rparr>
           \<and> ((\<exists>e. fst (operator_entries_endpoint env req s) = Raised e)
              \<or> (n = length (takeWhile re_match_slippy cells)
                 \<and> fst (operator_entries_endpoint env req s) =
                     Returned (Text (''Invalid slippy cell: '' @ bad)) 400))"
    by (rule exI [of _ n]) (use n oe in auto)
  with bad alwayslisten_put_rejects [OF ctl _ body bad, of s] show ?thesis by blast
qed

text \<open>
  C8. In an always-listen PUT and in a bulk operator-entry DELETE, a cell that is not of
  the form integer/integer/integer is rejected with 400 before any grid call, and no
  string of another form is accepted. The pattern of the two handlers has no end
  anchor: the cell \<open>1/2/3abc\<close> is not of that form, and the always-listen PUT stores it
  and hands it to the grid, and the bulk DELETE removes it from the grid. And the bulk
  DELETE checks each cell inside its removal loop: given \<open>10/1/2\<close> and \<open>x\<close>, it removes
  the first cell from the grid and then answers 400 for the second, where the
  always-listen PUT given the same list makes no grid call at all.
\<close>

theorem slippy_cell_accepted:
  "\<not> slippy_exact ''1/2/3abc''
   \<and> alwayslisten_endpoint example_env (control_request ''PUT'' (PList [PStr ''1/2/3abc''])) empty_state =
     (Returned (Text []) 204,
      empty_state\<lparr>always_listen := [''1/2/3abc''],
                   calls := [Upsert_operator [] ''2019-01-01T00:00:00Z'' ''2019-12-31T00:00:00Z'',
                             Insert_observer ''1/2/3abc'' ''2019-01-01T00:00:00Z'' ''2019-12-31T00:00:00Z'']\<rparr>)
   \<and> operator_entries_endpoint example_env
       (control_request ''DELETE'' (PList [PStr ''1/2/3abc''])) empty_state =
     (Returned (Jsonify (PDict [(PStr ''1/2/3abc'',
          PDict [(PStr ''code'', PNum 204), (PStr ''content'', PStr [])])])) 200,
      empty_state\<lparr>calls := [Remove_operator_by_cell ''1/2/3abc'']\<rparr>)
   \<and> \<not> slippy_exact ''x''
   \<and> operator_entries_endpoint example_env
       (control_request ''DELETE'' (PList [PStr ''10/1/2'', PStr ''x''])) empty_state =
     (Returned (Text ''Invalid slippy cell: x'') 400,
      empty_state\<lparr>calls := [Remove_operator_by_cell ''10/1/2'']\<rparr>)
   \<and> alwayslisten_endpoint example_env
       (control_request ''PUT'' (PList [PStr ''10/1/2'', PStr ''x''])) empty_state =
     (Returned (Text ''Invalid slippy cell: x'') 400, empty_state)"
  by (simp add: alwayslisten_endpoint_def operator_entries_endpoint_def update_operations_def
      error_response_def ok_response_def Let_def slippy_exact_def match_two_fields_def
      match_digits_def match_slash_def is_digit_def)

end
